theory Spec2Isabelle
  imports Main
begin

section \<open>urlcache: a URL kept cached on disk and refreshed periodically\<close>

text \<open>
  The development embeds the Go package \<open>urlcache\<close>: the cache schemes of
  \<open>cache_schemes.go\<close> and the engine (\<open>Open\<close>, \<open>readInitial\<close>, \<open>keepCurrent\<close>,
  \<open>checkUpdates\<close>, \<open>updateFromWeb\<close>, \<open>saveToTmpFile\<close>, \<open>saveToFile\<close>).

  The program talks to a file system and to an HTTP server. Both are made explicit:
  the file system is a map from paths to files inside a \<open>world\<close>, every operation on it
  appends an event to the world's trace together with the file system as it is right
  after the operation, and everything the outside decides (what the server answers, which
  file operation fails) is an input, the \<open>env\<close> of one poll cycle.
\<close>

subsection \<open>Errors\<close>

text \<open>
  \<open>oserr\<close> are the errors of package \<open>os\<close> that the code tells apart
  (\<open>os.IsExist\<close>, \<open>os.IsNotExist\<close>), the error of using a closed \<open>*os.File\<close>, and any
  other one. \<open>Wrapped\<close> is \<open>fmt.Errorf\<close> with the format string of the source.
\<close>

datatype oserr = ErrExist | ErrNotExist | ErrClosed | ErrOther

datatype err = OsErr oserr | NetErr string | CbErr string | Wrapped string err

fun os_IsExist :: "err \<Rightarrow> bool" where
  "os_IsExist (OsErr ErrExist) = True"
| "os_IsExist _ = False"

fun os_IsNotExist :: "err \<Rightarrow> bool" where
  "os_IsNotExist (OsErr ErrNotExist) = True"
| "os_IsNotExist _ = False"

subsection \<open>HTTP messages\<close>

text \<open>
  \<open>http.Header\<close> is a \<open>map[string][]string\<close>. \<open>Get\<close> returns the first value of a
  key, or the empty string when the key is missing; \<open>Set\<close> replaces the values of a key
  by one value. Keys are the header constants of \<open>cache_schemes.go\<close>.
\<close>

type_synonym bytes = string

type_synonym header = "string \<Rightarrow> string list option"

definition Header_Get :: "header \<Rightarrow> string \<Rightarrow> string" where
  "Header_Get h k = (case h k of None \<Rightarrow> [] | Some [] \<Rightarrow> [] | Some (v # _) \<Rightarrow> v)"

definition Header_Set :: "header \<Rightarrow> string \<Rightarrow> string \<Rightarrow> header" where
  "Header_Set h k v = h(k \<mapsto> [v])"

definition lastModifiedHeader :: string where
  "lastModifiedHeader = ''Last-Modified''"

definition ifModifiedSinceHeader :: string where
  "ifModifiedSinceHeader = ''If-Modified-Since''"

definition etagHeader :: string where
  "etagHeader = ''ETag''"

definition ifNoneMatchHeader :: string where
  "ifNoneMatchHeader = ''If-None-Match''"

definition StatusNotModified :: nat where
  "StatusNotModified = 304"

record request =
  Method :: string
  URL :: string
  ReqHeader :: header

text \<open>\<open>Body\<close> is what \<open>ioutil.ReadAll(resp.Body)\<close> gives: the bytes, or a read error.\<close>

record response =
  StatusCode :: nat
  Header :: header
  Body :: "err + bytes"

definition http_NewRequest :: "string \<Rightarrow> string \<Rightarrow> request" where
  "http_NewRequest m u = \<lparr>Method = m, URL = u, ReqHeader = Map.empty\<rparr>"

subsection \<open>Cache schemes (cache\_schemes.go)\<close>

text \<open>
  The interface \<open>cacheScheme\<close> has three implementations; the two with a field carry
  their token. The methods have pointer receivers and \<open>onResponse\<close> assigns the field,
  so the model returns the updated scheme.
\<close>

datatype cacheScheme = lastModifiedScheme string | etagScheme string | noopScheme

fun prepareRequest :: "cacheScheme \<Rightarrow> request \<Rightarrow> request" where
  "prepareRequest (lastModifiedScheme lastModifiedDate) req =
     req\<lparr>ReqHeader := Header_Set (ReqHeader req) ifModifiedSinceHeader lastModifiedDate\<rparr>"
| "prepareRequest (etagScheme etag) req =
     req\<lparr>ReqHeader := Header_Set (ReqHeader req) ifNoneMatchHeader etag\<rparr>"
| "prepareRequest noopScheme req = req"

fun onResponse :: "cacheScheme \<Rightarrow> response \<Rightarrow> cacheScheme" where
  "onResponse (lastModifiedScheme lastModifiedDate) resp =
     lastModifiedScheme (Header_Get (Header resp) lastModifiedHeader)"
| "onResponse (etagScheme etag) resp = etagScheme (Header_Get (Header resp) etagHeader)"
| "onResponse noopScheme resp = noopScheme"

text \<open>Which implementation a scheme value is (the dynamic type behind the interface).\<close>

datatype schemeKind = KLastModified | KEtag | KNoop

fun kindOf :: "cacheScheme \<Rightarrow> schemeKind" where
  "kindOf (lastModifiedScheme _) = KLastModified"
| "kindOf (etagScheme _) = KEtag"
| "kindOf noopScheme = KNoop"

subsection \<open>The file system and the trace\<close>

type_synonym time = int

definition zeroTime :: time where
  "zeroTime = 0"

record fnode =
  content :: bytes
  mtime :: time

type_synonym filesys = "string \<Rightarrow> fnode option"

datatype event =
    EvMkdirAll string
  | EvOpen string
  | EvOpenFile string
  | EvWrite string
  | EvRemove string
  | EvRename string string
  | EvOnUpdate bytes
  | EvHead string
  | EvDo request
  | EvSleep int
  | EvInfo string
  | EvError string err

record world =
  fs :: filesys
  trace :: "(event \<times> filesys) list"

definition emit :: "event \<Rightarrow> world \<Rightarrow> world" where
  "emit ev w = w\<lparr>trace := trace w @ [(ev, fs w)]\<rparr>"

text \<open>
  An \<open>*os.File\<close>: the name it was opened under and whether \<open>Close\<close> has been called.
  Every method of a closed file fails (\<open>use of closed file\<close>), \<open>Stat\<close> included.
\<close>

record osFile =
  fname :: string
  closed :: bool

definition File_Close :: "osFile \<Rightarrow> osFile" where
  "File_Close f = f\<lparr>closed := True\<rparr>"

definition File_Stat :: "osFile \<Rightarrow> world \<Rightarrow> err + time" where
  "File_Stat f w =
     (if closed f then Inl (OsErr ErrClosed)
      else case fs w (fname f) of
             None \<Rightarrow> Inl (OsErr ErrNotExist)
           | Some nd \<Rightarrow> Inr (mtime nd))"

definition File_contents :: "osFile \<Rightarrow> world \<Rightarrow> bytes" where
  "File_contents f w = (case fs w (fname f) of None \<Rightarrow> [] | Some nd \<Rightarrow> content nd)"

text \<open>\<open>os.Open\<close>: read-only; fails when the file is missing or, by \<open>fault\<close>, unreadable.\<close>

definition os_Open :: "string \<Rightarrow> bool \<Rightarrow> world \<Rightarrow> (err + osFile) \<times> world" where
  "os_Open name fault w =
     (case fs w name of
        None \<Rightarrow> (Inl (OsErr ErrNotExist), emit (EvOpen name) w)
      | Some nd \<Rightarrow>
          if fault then (Inl (OsErr ErrOther), emit (EvOpen name) w)
          else (Inr \<lparr>fname = name, closed = False\<rparr>, emit (EvOpen name) w))"

text \<open>
  \<open>os.OpenFile(name, O_CREATE|O_TRUNC|O_WRONLY, 0644)\<close>: on success the file exists
  and is empty.
\<close>

definition os_OpenFile :: "string \<Rightarrow> bool \<Rightarrow> time \<Rightarrow> world \<Rightarrow> (err + osFile) \<times> world" where
  "os_OpenFile name fault t w =
     (if fault then (Inl (OsErr ErrOther), emit (EvOpenFile name) w)
      else (Inr \<lparr>fname = name, closed = False\<rparr>,
            emit (EvOpenFile name) (w\<lparr>fs := (fs w)(name \<mapsto> \<lparr>content = [], mtime = t\<rparr>)\<rparr>)))"

text \<open>
  \<open>f.Write(data)\<close> appends at the end of the file just opened. A failing write
  (\<open>fault = Some n\<close>) has put the first \<open>n\<close> bytes on disk.
\<close>

definition File_Write :: "osFile \<Rightarrow> bytes \<Rightarrow> nat option \<Rightarrow> time \<Rightarrow> world \<Rightarrow> err option \<times> world" where
  "File_Write f data fault t w =
     (if closed f then (Some (OsErr ErrClosed), emit (EvWrite (fname f)) w)
      else case fs w (fname f) of
             None \<Rightarrow> (Some (OsErr ErrNotExist), emit (EvWrite (fname f)) w)
           | Some nd \<Rightarrow>
               (case fault of
                  None \<Rightarrow>
                    (None, emit (EvWrite (fname f))
                       (w\<lparr>fs := (fs w)(fname f \<mapsto> \<lparr>content = content nd @ data, mtime = t\<rparr>)\<rparr>))
                | Some n \<Rightarrow>
                    (Some (OsErr ErrOther), emit (EvWrite (fname f))
                       (w\<lparr>fs := (fs w)(fname f \<mapsto> \<lparr>content = content nd @ take n data, mtime = t\<rparr>)\<rparr>))))"

definition os_Remove :: "string \<Rightarrow> bool \<Rightarrow> world \<Rightarrow> err option \<times> world" where
  "os_Remove name fault w =
     (if fault then (Some (OsErr ErrOther), emit (EvRemove name) w)
      else case fs w name of
             None \<Rightarrow> (Some (OsErr ErrNotExist), emit (EvRemove name) w)
           | Some nd \<Rightarrow> (None, emit (EvRemove name) (w\<lparr>fs := (fs w)(name := None)\<rparr>)))"

definition os_Rename :: "string \<Rightarrow> string \<Rightarrow> bool \<Rightarrow> world \<Rightarrow> err option \<times> world" where
  "os_Rename oldpath newpath fault w =
     (if fault then (Some (OsErr ErrOther), emit (EvRename oldpath newpath) w)
      else case fs w oldpath of
             None \<Rightarrow> (Some (OsErr ErrNotExist), emit (EvRename oldpath newpath) w)
           | Some nd \<Rightarrow>
               (None, emit (EvRename oldpath newpath)
                  (w\<lparr>fs := ((fs w)(oldpath := None))(newpath \<mapsto> nd)\<rparr>)))"

text \<open>\<open>filepath.Split\<close>: the directory is everything up to and including the last slash.\<close>

definition filepath_Split :: "string \<Rightarrow> string \<times> string" where
  "filepath_Split path =
     (rev (dropWhile (\<lambda>ch. ch \<noteq> CHR ''/'') (rev path)),
      rev (takeWhile (\<lambda>ch. ch \<noteq> CHR ''/'') (rev path)))"

subsection \<open>What the outside decides\<close>

text \<open>
  \<open>env\<close> is the outside during one poll cycle: the clock, the answers to the HEAD probe
  and to the GET request, and which file operations fail. \<open>startup\<close> is the outside
  during \<open>Open\<close>: the result of \<open>os.MkdirAll\<close> and whether the cache file is unreadable.
\<close>

record env =
  now :: time
  http_Head :: "string \<Rightarrow> err + response"
  client_Do :: "request \<Rightarrow> err + response"
  tmpOpenFault :: bool
  tmpWriteFault :: "nat option"
  dstOpenFault :: bool
  dstWriteFault :: "nat option"
  removeFault :: bool
  renameFault :: bool

record startup =
  mkdirErr :: "oserr option"
  openFault :: bool

subsection \<open>The engine (urlcache.go)\<close>

text \<open>The struct \<open>urlcache\<close>; its \<open>client\<close> is the \<open>client_Do\<close> of the environment.\<close>

record urlcache =
  url :: string
  cacheFile :: string
  checkInterval :: int
  onUpdate :: "bytes \<Rightarrow> err option"

definition defaultCheckInterval :: int where
  "defaultCheckInterval = 60 * 1000000000"

definition readInitial :: "urlcache \<Rightarrow> bool \<Rightarrow> world \<Rightarrow> time \<times> world" where
  "readInitial c fault w =
     (let currentDate = zeroTime in
      case os_Open (cacheFile c) fault w of
        (Inl er, w1) \<Rightarrow> (currentDate, w1)
      | (Inr file, w1) \<Rightarrow>
          (let data = File_contents file w1;
               w2 = emit (EvOnUpdate data) w1;
               r = onUpdate c data;
               file' = File_Close file
           in case r of
                Some er \<Rightarrow> (currentDate, w2)
              | None \<Rightarrow>
                  (case File_Stat file' w2 of
                     Inl er \<Rightarrow> (currentDate, w2)
                   | Inr mt \<Rightarrow> (mt, emit (EvInfo ''Successfully initialized from %v'') w2))))"

definition saveToFile :: "osFile \<Rightarrow> bytes \<Rightarrow> nat option \<Rightarrow> time \<Rightarrow> world \<Rightarrow> err option \<times> world" where
  "saveToFile f data fault t w =
     (case File_Write f data fault t w of
        (Some er, w1) \<Rightarrow> (Some (Wrapped ''Unable to copy contents from web to temp file: %v'' er), w1)
      | (None, w1) \<Rightarrow> (None, w1))"

definition saveToTmpFile :: "urlcache \<Rightarrow> bytes \<Rightarrow> env \<Rightarrow> world \<Rightarrow> string \<times> err option \<times> world" where
  "saveToTmpFile c data e w =
     (let tmpFileName = cacheFile c @ ''_temp'' in
      case os_OpenFile tmpFileName (tmpOpenFault e) (now e) w of
        (Inl er, w1) \<Rightarrow> ([], Some (Wrapped ''Unable to create temp file %v: %v'' er), w1)
      | (Inr f, w1) \<Rightarrow>
          (case saveToFile f data (tmpWriteFault e) (now e) w1 of
             (r, w2) \<Rightarrow> (fname f, r, w2)))"

definition updateFromWeb :: "urlcache \<Rightarrow> cacheScheme \<Rightarrow> env \<Rightarrow> world \<Rightarrow> err option \<times> cacheScheme \<times> world" where
  "updateFromWeb c scheme e w =
     (let req = prepareRequest scheme (http_NewRequest ''GET'' (url c));
          w1 = emit (EvDo req) w
      in case client_Do e req of
           Inl er \<Rightarrow> (Some (Wrapped ''Unable to update from web: %v'' er), scheme, w1)
         | Inr resp \<Rightarrow>
             (let scheme' = onResponse scheme resp in
              if StatusCode resp = StatusNotModified then (None, scheme', w1)
              else case Body resp of
                     Inl er \<Rightarrow> (Some (Wrapped ''Unable to read data from web: %v'' er), scheme', w1)
                   | Inr data \<Rightarrow>
                       (let w2 = emit (EvOnUpdate data) w1 in
                        case onUpdate c data of
                          Some er \<Rightarrow> (Some er, scheme', w2)
                        | None \<Rightarrow>
                            (case saveToTmpFile c data e w2 of
                               (tmpName, Some esave, w3) \<Rightarrow>
                                 (let w4 = emit (EvInfo ''Unable to save to temp file, will write directly to destination: %v'') w3 in
                                  case os_OpenFile (cacheFile c) (dstOpenFault e) (now e) w4 of
                                    (Inl openErr, w5) \<Rightarrow>
                                      (Some (Wrapped ''Unable to open cache file: %v'' openErr), scheme', w5)
                                  | (Inr f, w5) \<Rightarrow>
                                      (case saveToFile f data (dstWriteFault e) (now e) w5 of
                                         (r, w6) \<Rightarrow> (r, scheme', w6)))
                             | (tmpName, None, w3) \<Rightarrow>
                                 (case os_Remove (cacheFile c) (removeFault e) w3 of
                                    (rr, w4) \<Rightarrow>
                                      (let renamed =
                                         (case os_Rename tmpName (cacheFile c) (renameFault e) w4 of
                                            (Some er, w5) \<Rightarrow>
                                              (Some (Wrapped ''Unable to move tmpFile to cacheFile: %v'' er), scheme', w5)
                                          | (None, w5) \<Rightarrow> (None, scheme', w5))
                                       in case rr of
                                            None \<Rightarrow> renamed
                                          | Some er \<Rightarrow>
                                              if \<not> os_IsNotExist er
                                              then (Some (Wrapped ''Unable to remove old cache file: %v'' er), scheme', w4)
                                              else renamed))))))"

text \<open>
  \<open>checkUpdates\<close>. \<open>Format\<close> stands for \<open>initialDate.Format(http.TimeFormat)\<close>, a
  function of the standard library that is taken as a parameter.
\<close>

definition checkUpdates ::
  "(time \<Rightarrow> string) \<Rightarrow> urlcache \<Rightarrow> time \<Rightarrow> cacheScheme option \<Rightarrow> env \<Rightarrow> world
     \<Rightarrow> cacheScheme option \<times> world" where
  "checkUpdates Format c initialDate scheme e w =
     (let sel =
        (case scheme of
           Some s \<Rightarrow> Inr (s, w)
         | None \<Rightarrow>
             (let w1 = emit (EvHead (url c))
                         (emit (EvInfo ''Cache scheme unknown, issue HEAD request to determine scheme'') w)
              in case http_Head e (url c) of
                   Inl er \<Rightarrow> Inl (emit (EvError ''Unable to request modified of %v: %v'' er) w1)
                 | Inr headResp \<Rightarrow>
                     if Header_Get (Header headResp) lastModifiedHeader \<noteq> []
                     then Inr (lastModifiedScheme (Format initialDate),
                               emit (EvInfo ''Will use %v to determine when file changes'') w1)
                     else if Header_Get (Header headResp) etagHeader \<noteq> []
                     then Inr (etagScheme [],
                               emit (EvInfo ''Will use %v to determine when file changes'') w1)
                     else Inr (noopScheme, emit (EvInfo ''Will always assume file changed'') w1)))
      in case sel of
           Inl w' \<Rightarrow> (None, w')
         | Inr (s, w') \<Rightarrow>
             (case updateFromWeb c s e w' of
                (None, s', w'') \<Rightarrow> (Some s', w'')
              | (Some er, s', w'') \<Rightarrow>
                  (Some s', emit (EvError ''Unable to update from web: %v'' er) w'')))"

text \<open>
  \<open>keepCurrent\<close> loops forever: \<open>checkUpdates\<close>, then \<open>time.Sleep\<close>. The loop never
  returns, so the model runs it over the environments of finitely many cycles and gives
  the state reached after them; \<open>keepCurrent\<close> starts the loop with the nil scheme.
\<close>

fun keepCurrent_loop ::
  "(time \<Rightarrow> string) \<Rightarrow> urlcache \<Rightarrow> time \<Rightarrow> cacheScheme option \<Rightarrow> env list \<Rightarrow> world
     \<Rightarrow> cacheScheme option \<times> world" where
  "keepCurrent_loop Format c initialDate scheme [] w = (scheme, w)"
| "keepCurrent_loop Format c initialDate scheme (e # es) w =
     (case checkUpdates Format c initialDate scheme e w of
        (scheme', w') \<Rightarrow>
          keepCurrent_loop Format c initialDate scheme' es (emit (EvSleep (checkInterval c)) w'))"

definition keepCurrent ::
  "(time \<Rightarrow> string) \<Rightarrow> urlcache \<Rightarrow> time \<Rightarrow> env list \<Rightarrow> world \<Rightarrow> cacheScheme option \<times> world" where
  "keepCurrent Format c initialDate es w = keepCurrent_loop Format c initialDate None es w"

text \<open>
  \<open>Open\<close>. The statement \<open>go c.keepCurrent(c.readInitial())\<close> evaluates
  \<open>c.readInitial()\<close> in the caller and starts the loop in a goroutine of its own:
  \<open>Open\<close> returns \<open>Inr\<close> of the arguments the goroutine was started with, or \<open>Inl\<close>
  of its error.
\<close>

definition Open ::
  "string \<Rightarrow> string \<Rightarrow> int \<Rightarrow> (bytes \<Rightarrow> err option) \<Rightarrow> startup \<Rightarrow> world
     \<Rightarrow> (err + urlcache \<times> time) \<times> world" where
  "Open u path interval cb su w =
     (let interval' = (if interval \<le> 0 then defaultCheckInterval else interval);
          dir = fst (filepath_Split path);
          mk = (if dir \<noteq> [] then (mkdirErr su, emit (EvMkdirAll dir) w) else (None, w));
          c = \<lparr>url = u, cacheFile = path, checkInterval = interval', onUpdate = cb\<rparr>
      in case mk of
           (r, w1) \<Rightarrow>
             (let started = (case readInitial c (openFault su) w1 of (d, w2) \<Rightarrow> (Inr (c, d), w2))
              in case r of
                   None \<Rightarrow> started
                 | Some er \<Rightarrow>
                     if \<not> os_IsExist (OsErr er)
                     then (Inl (Wrapped ''Unable to create cache dir %v: %v'' (OsErr er)), w1)
                     else started))"

text \<open>
  The whole program on the environments of its first cycles: \<open>Open\<close>'s result, and
  the state the goroutine has reached.
\<close>

definition program ::
  "(time \<Rightarrow> string) \<Rightarrow> string \<Rightarrow> string \<Rightarrow> int \<Rightarrow> (bytes \<Rightarrow> err option) \<Rightarrow> startup \<Rightarrow> env list
     \<Rightarrow> world \<Rightarrow> err option \<times> cacheScheme option \<times> world" where
  "program Format u path interval cb su es w =
     (case Open u path interval cb su w of
        (Inl er, w1) \<Rightarrow> (Some er, None, w1)
      | (Inr (c, d), w1) \<Rightarrow>
          (case keepCurrent Format c d es w1 of (s, w2) \<Rightarrow> (None, s, w2)))"

subsection \<open>Observing a run\<close>

text \<open>
  The events a run has added to the trace, and what they are: a HEAD probe, a scheme
  selection (one of the three messages that \<open>checkUpdates\<close> logs when it constructs
  a scheme), a request sent with \<open>client.Do\<close>. \<open>observed p\<close> is what a reader of
  path \<open>p\<close> finds after each event.
\<close>

definition newEvents :: "world \<Rightarrow> world \<Rightarrow> (event \<times> filesys) list" where
  "newEvents w w' = drop (length (trace w)) (trace w')"

fun isHead :: "event \<Rightarrow> bool" where
  "isHead (EvHead u) = True"
| "isHead _ = False"

fun isSelection :: "event \<Rightarrow> bool" where
  "isSelection (EvInfo m) =
     (m = ''Will use %v to determine when file changes'' \<or> m = ''Will always assume file changed'')"
| "isSelection _ = False"

fun isDo :: "event \<Rightarrow> bool" where
  "isDo (EvDo req) = True"
| "isDo _ = False"

fun isError :: "event \<Rightarrow> bool" where
  "isError (EvError m er) = True"
| "isError _ = False"

fun isOnUpdate :: "event \<Rightarrow> bool" where
  "isOnUpdate (EvOnUpdate b) = True"
| "isOnUpdate _ = False"

definition quiet :: "(event \<times> filesys) list \<Rightarrow> bool" where
  "quiet evs = list_all (\<lambda>x. \<not> isHead (fst x) \<and> \<not> isSelection (fst x)) evs"

definition selections :: "(event \<times> filesys) list \<Rightarrow> nat" where
  "selections evs = length (filter (\<lambda>x. isSelection (fst x)) evs)"

definition probes :: "(event \<times> filesys) list \<Rightarrow> nat" where
  "probes evs = length (filter (\<lambda>x. isHead (fst x)) evs)"

definition errorLogs :: "(event \<times> filesys) list \<Rightarrow> nat" where
  "errorLogs evs = length (filter (\<lambda>x. isError (fst x)) evs)"

definition callbacks :: "(event \<times> filesys) list \<Rightarrow> nat" where
  "callbacks evs = length (filter (\<lambda>x. isOnUpdate (fst x)) evs)"

definition fetches :: "(event \<times> filesys) list \<Rightarrow> nat" where
  "fetches evs = length (filter (\<lambda>x. isDo (fst x)) evs)"

text \<open>Whether the HEAD probe of a cycle fails (\<open>http.Head\<close> returns an error).\<close>

definition probeFails :: "urlcache \<Rightarrow> env \<Rightarrow> bool" where
  "probeFails c e = (case http_Head e (url c) of Inl er \<Rightarrow> True | Inr r \<Rightarrow> False)"

text \<open>Whether the request of a cycle with scheme \<open>s\<close> fails (\<open>client.Do\<close> returns an error).\<close>

definition fetchFails :: "urlcache \<Rightarrow> cacheScheme \<Rightarrow> env \<Rightarrow> bool" where
  "fetchFails c s e =
     (case client_Do e (prepareRequest s (http_NewRequest ''GET'' (url c))) of
        Inl er \<Rightarrow> True
      | Inr r \<Rightarrow> False)"


subsection \<open>Concrete inputs\<close>

text \<open>
  A cache of \<open>http://host/data\<close> in \<open>dir/cachefile\<close>, a file system that holds an
  older copy, a callback that accepts and one that rejects, a server that gives the same
  answer to the probe and to the request, and a file system whose temporary file cannot
  be created when \<open>tmpFault\<close> is set.
\<close>

definition exResponse :: "nat \<Rightarrow> (string \<times> string) list \<Rightarrow> bytes \<Rightarrow> response" where
  "exResponse st hs b =
     \<lparr>StatusCode = st, Header = map_of (map (\<lambda>(k, v). (k, [v])) hs), Body = Inr b\<rparr>"

definition exEnv :: "(err + response) \<Rightarrow> bool \<Rightarrow> env" where
  "exEnv r tmpFault =
     \<lparr>now = 100, http_Head = (\<lambda>u. r), client_Do = (\<lambda>req. r),
      tmpOpenFault = tmpFault, tmpWriteFault = None, dstOpenFault = False, dstWriteFault = None,
      removeFault = False, renameFault = False\<rparr>"

definition accept :: "bytes \<Rightarrow> err option" where
  "accept b = None"

definition reject :: "bytes \<Rightarrow> err option" where
  "reject b = Some (CbErr ''rejected'')"

definition exCache :: "(bytes \<Rightarrow> err option) \<Rightarrow> urlcache" where
  "exCache cb =
     \<lparr>url = ''http://host/data'', cacheFile = ''dir/cachefile'', checkInterval = 50, onUpdate = cb\<rparr>"

definition exWorld :: world where
  "exWorld = \<lparr>fs = [''dir/cachefile'' \<mapsto> \<lparr>content = ''old'', mtime = 42\<rparr>], trace = []\<rparr>"

definition exFormat :: "time \<Rightarrow> string" where
  "exFormat t = (if t = 0 then ''Mon, 01 Jan 0001 00:00:00 GMT'' else ''later'')"

section \<open>Lemmas about traces\<close>

lemma trace_emit [simp]: "trace (emit ev w) = trace w @ [(ev, fs w)]"
  by (simp add: emit_def)

lemma fs_emit [simp]: "fs (emit ev w) = fs w"
  by (simp add: emit_def)

lemma quiet_append [simp]: "quiet (xs @ ys) = (quiet xs \<and> quiet ys)"
  by (simp add: quiet_def)

lemma selections_append [simp]: "selections (xs @ ys) = selections xs + selections ys"
  by (simp add: selections_def)

lemma fetches_append [simp]: "fetches (xs @ ys) = fetches xs + fetches ys"
  by (simp add: fetches_def)

lemma quiet_selections: "quiet evs \<Longrightarrow> selections evs = 0"
  by (induction evs) (auto simp: quiet_def selections_def)

lemma probes_append [simp]: "probes (xs @ ys) = probes xs + probes ys"
  by (simp add: probes_def)

lemma quiet_probes: "quiet evs \<Longrightarrow> probes evs = 0"
  by (induction evs) (auto simp: quiet_def probes_def)

lemma newEvents_append [simp]: "trace w' = trace w @ evs \<Longrightarrow> newEvents w w' = evs"
  by (simp add: newEvents_def)

lemmas prim_defs = os_OpenFile_def File_Write_def os_Remove_def os_Rename_def
  saveToFile_def saveToTmpFile_def

lemmas ex_defs = exResponse_def exEnv_def accept_def reject_def exCache_def exWorld_def exFormat_def
  lastModifiedHeader_def etagHeader_def ifModifiedSinceHeader_def ifNoneMatchHeader_def
  Header_Get_def Header_Set_def http_NewRequest_def StatusNotModified_def

text \<open>
  \<open>updateFromWeb\<close> first sends the prepared request; whatever it does after that is
  neither a probe, nor a selection, nor a second request.
\<close>

lemma updateFromWeb_trace:
  "\<exists>evs. trace (snd (snd (updateFromWeb c s e w))) =
           trace w @ (EvDo (prepareRequest s (http_NewRequest ''GET'' (url c))), fs w) # evs \<and>
         quiet evs \<and> fetches evs = 0"
  by (auto simp: updateFromWeb_def prim_defs quiet_def fetches_def Let_def
           split: sum.splits option.splits prod.splits if_splits)

lemma updateFromWeb_delivers:
  assumes "client_Do e (prepareRequest s (http_NewRequest ''GET'' (url c))) = Inr resp"
      and "StatusCode resp \<noteq> StatusNotModified"
      and "Body resp = Inr data"
  shows "\<exists>evs. trace (snd (snd (updateFromWeb c s e w))) =
           trace w @ (EvDo (prepareRequest s (http_NewRequest ''GET'' (url c))), fs w) #
                     (EvOnUpdate data, fs w) # evs"
  using assms
  by (auto simp: updateFromWeb_def prim_defs Let_def
           split: sum.splits option.splits prod.splits if_splits)

lemma updateFromWeb_kind: "kindOf (fst (snd (updateFromWeb c s e w))) = kindOf s"
  by (cases s) (auto simp: updateFromWeb_def Let_def split: sum.splits option.splits prod.splits)

lemma updateFromWeb_onResponse:
  assumes "client_Do e (prepareRequest s (http_NewRequest ''GET'' (url c))) = Inr resp"
  shows "fst (snd (updateFromWeb c s e w)) = onResponse s resp"
  using assms
  by (auto simp: updateFromWeb_def Let_def split: sum.splits option.splits prod.splits)

text \<open>The cycles of a loop that already has its scheme.\<close>

lemma checkUpdates_Some:
  assumes "snd (checkUpdates F c d (Some s) e w) = w'"
  shows "\<exists>s' evs. checkUpdates F c d (Some s) e w = (Some s', w') \<and> kindOf s' = kindOf s \<and>
           trace w' = trace w @ evs \<and> quiet evs \<and> fetches evs = 1"
proof -
  obtain r s1 w1 where u: "updateFromWeb c s e w = (r, s1, w1)"
    by (cases "updateFromWeb c s e w") auto
  from updateFromWeb_trace [of c s e w] u obtain evs where
    t: "trace w1 = trace w @ (EvDo (prepareRequest s (http_NewRequest ''GET'' (url c))), fs w) # evs"
    and q: "quiet evs" and f: "fetches evs = 0" by auto
  from updateFromWeb_kind [of c s e w] u have k: "kindOf s1 = kindOf s" by simp
  show ?thesis
  proof (cases r)
    case None
    with u assms have "checkUpdates F c d (Some s) e w = (Some s1, w')" and "w' = w1"
      by (auto simp: checkUpdates_def)
    with t q f k show ?thesis by (auto simp: quiet_def fetches_def)
  next
    case (Some er)
    with u assms have "checkUpdates F c d (Some s) e w = (Some s1, w')"
      and "w' = emit (EvError ''Unable to update from web: %v'' er) w1"
      by (auto simp: checkUpdates_def)
    with t q f k show ?thesis by (auto simp: quiet_def fetches_def)
  qed
qed

lemma loop_Some:
  assumes "snd (keepCurrent_loop F c d (Some s) es w) = w'"
  shows "\<exists>s' evs. keepCurrent_loop F c d (Some s) es w = (Some s', w') \<and> kindOf s' = kindOf s \<and>
           trace w' = trace w @ evs \<and> quiet evs \<and> fetches evs = length es"
  using assms
proof (induction es arbitrary: s w)
  case Nil
  then show ?case by (auto simp: quiet_def fetches_def)
next
  case (Cons e es)
  obtain s1 evs1 w1 where c1: "checkUpdates F c d (Some s) e w = (Some s1, w1)"
    and k1: "kindOf s1 = kindOf s" and t1: "trace w1 = trace w @ evs1" and q1: "quiet evs1"
    and f1: "fetches evs1 = 1"
    using checkUpdates_Some [OF refl, of F c d s e w] by blast
  let ?w2 = "emit (EvSleep (checkInterval c)) w1"
  from Cons.prems c1 have "snd (keepCurrent_loop F c d (Some s1) es ?w2) = w'" by simp
  from Cons.IH [OF this] obtain s2 evs2 where
    l: "keepCurrent_loop F c d (Some s1) es ?w2 = (Some s2, w')" and k2: "kindOf s2 = kindOf s1"
    and t2: "trace w' = trace ?w2 @ evs2" and q2: "quiet evs2"
    and f2: "fetches evs2 = length es" by blast
  have "trace w' = trace w @ (evs1 @ (EvSleep (checkInterval c), fs w1) # evs2)"
    using t1 t2 by simp
  moreover have "quiet (evs1 @ (EvSleep (checkInterval c), fs w1) # evs2)"
    using q1 q2 by (simp add: quiet_def)
  moreover have "fetches (evs1 @ (EvSleep (checkInterval c), fs w1) # evs2) = length (e # es)"
    using f1 f2 by (simp add: fetches_def)
  ultimately show ?case using c1 l k1 k2 by auto
qed

text \<open>The cycles of a loop that has no scheme yet.\<close>

lemma checkUpdates_None_fail:
  "http_Head e (url c) = Inl er \<Longrightarrow>
   checkUpdates F c d None e w =
     (None, w\<lparr>trace := trace w @
        [(EvInfo ''Cache scheme unknown, issue HEAD request to determine scheme'', fs w),
         (EvHead (url c), fs w),
         (EvError ''Unable to request modified of %v: %v'' er, fs w)]\<rparr>)"
  by (simp add: checkUpdates_def Let_def emit_def)

lemma checkUpdates_None_ok:
  assumes "http_Head e (url c) = Inr hr" and "snd (checkUpdates F c d None e w) = w'"
  shows "\<exists>s' evs. checkUpdates F c d None e w = (Some s', w') \<and>
           trace w' = trace w @ evs \<and> selections evs = 1 \<and> EvHead (url c) \<in> fst ` set evs \<and>
           probes evs = 1 \<and> fetches evs = 1 \<and>
           kindOf s' = (if Header_Get (Header hr) lastModifiedHeader \<noteq> [] then KLastModified
                        else if Header_Get (Header hr) etagHeader \<noteq> [] then KEtag else KNoop)"
proof -
  define s0 where "s0 =
    (if Header_Get (Header hr) lastModifiedHeader \<noteq> [] then lastModifiedScheme (F d)
     else if Header_Get (Header hr) etagHeader \<noteq> [] then etagScheme [] else noopScheme)"
  define m where "m =
    (if Header_Get (Header hr) lastModifiedHeader \<noteq> [] then ''Will use %v to determine when file changes''
     else if Header_Get (Header hr) etagHeader \<noteq> [] then ''Will use %v to determine when file changes''
     else ''Will always assume file changed'')"
  define w0 where "w0 = emit (EvInfo m) (emit (EvHead (url c))
    (emit (EvInfo ''Cache scheme unknown, issue HEAD request to determine scheme'') w))"
  obtain r s1 w1 where u: "updateFromWeb c s0 e w0 = (r, s1, w1)"
    by (cases "updateFromWeb c s0 e w0") auto
  from updateFromWeb_trace [of c s0 e w0] u obtain evs where
    t: "trace w1 = trace w0 @ (EvDo (prepareRequest s0 (http_NewRequest ''GET'' (url c))), fs w0) # evs"
    and q: "quiet evs" and f: "fetches evs = 0" by auto
  from updateFromWeb_kind [of c s0 e w0] u have k: "kindOf s1 = kindOf s0" by simp
  have cu: "checkUpdates F c d None e w =
              (Some s1, case r of None \<Rightarrow> w1
                        | Some er \<Rightarrow> emit (EvError ''Unable to update from web: %v'' er) w1)"
    using assms(1) u by (auto simp: checkUpdates_def Let_def s0_def m_def w0_def split: option.splits)
  have sel: "isSelection (EvInfo m)" by (simp add: m_def)
  have z: "selections evs = 0" using q by (rule quiet_selections)
  have p: "probes evs = 0" using q by (rule quiet_probes)
  show ?thesis
  proof (cases r)
    case None
    with cu assms(2) have "w' = w1" by simp
    with cu None t z p f k sel show ?thesis
      by (auto simp: w0_def s0_def selections_def probes_def fetches_def image_iff)
  next
    case (Some er)
    with cu assms(2) have "w' = emit (EvError ''Unable to update from web: %v'' er) w1" by simp
    with cu Some t z p f k sel show ?thesis
      by (auto simp: w0_def s0_def selections_def probes_def fetches_def image_iff)
  qed
qed

lemma loop_None:
  "\<exists>evs. trace (snd (keepCurrent_loop F c d None es w)) = trace w @ evs \<and> selections evs \<le> 1"
proof (induction es arbitrary: w)
  case Nil
  then show ?case by (simp add: selections_def)
next
  case (Cons e es)
  show ?case
  proof (cases "http_Head e (url c)")
    case (Inl er)
    let ?w1 = "snd (checkUpdates F c d None e w)"
    let ?w2 = "emit (EvSleep (checkInterval c)) ?w1"
    from Cons.IH [of ?w2] obtain evs where
      t: "trace (snd (keepCurrent_loop F c d None es ?w2)) = trace ?w2 @ evs" and s: "selections evs \<le> 1"
      by blast
    have l: "keepCurrent_loop F c d None (e # es) w = keepCurrent_loop F c d None es ?w2"
      using checkUpdates_None_fail [OF Inl, of F d w] by simp
    show ?thesis
      unfolding l using t s checkUpdates_None_fail [OF Inl, of F d w]
      by (auto simp: selections_def)
  next
    case (Inr hr)
    define w1 where "w1 = snd (checkUpdates F c d None e w)"
    from checkUpdates_None_ok [OF Inr w1_def [symmetric]] obtain s1 evs1 where
      c1: "checkUpdates F c d None e w = (Some s1, w1)"
      and t1: "trace w1 = trace w @ evs1" and n1: "selections evs1 = 1"
      by blast
    let ?w2 = "emit (EvSleep (checkInterval c)) w1"
    from loop_Some [OF refl, of F c d s1 es ?w2] obtain evs2 where
      t2: "trace (snd (keepCurrent_loop F c d (Some s1) es ?w2)) = trace ?w2 @ evs2" and q2: "quiet evs2"
      by auto
    have l: "keepCurrent_loop F c d None (e # es) w = keepCurrent_loop F c d (Some s1) es ?w2"
      using c1 by simp
    have "trace (snd (keepCurrent_loop F c d None (e # es) w)) =
            trace w @ (evs1 @ (EvSleep (checkInterval c), fs w1) # evs2)"
      unfolding l using t1 t2 by simp
    moreover have "selections (evs1 @ (EvSleep (checkInterval c), fs w1) # evs2) \<le> 1"
      using n1 quiet_selections [OF q2] by (simp add: selections_def)
    ultimately show ?thesis by blast
  qed
qed

text \<open>A failed update is logged by \<open>checkUpdates\<close>.\<close>

lemma checkUpdates_logs_update_error:
  assumes "fst (updateFromWeb c s e w) = Some er"
  shows "EvError ''Unable to update from web: %v'' er \<in>
           fst ` set (newEvents w (snd (checkUpdates F c d (Some s) e w)))"
proof -
  obtain s1 w1 where u: "updateFromWeb c s e w = (Some er, s1, w1)"
    using assms by (cases "updateFromWeb c s e w") auto
  from updateFromWeb_trace [of c s e w] u obtain evs where
    t: "trace w1 = trace w @ (EvDo (prepareRequest s (http_NewRequest ''GET'' (url c))), fs w) # evs"
    by auto
  have "checkUpdates F c d (Some s) e w =
          (Some s1, emit (EvError ''Unable to update from web: %v'' er) w1)"
    using u by (simp add: checkUpdates_def)
  then have "trace (snd (checkUpdates F c d (Some s) e w)) =
               trace w @ ((EvDo (prepareRequest s (http_NewRequest ''GET'' (url c))), fs w) # evs @
                 [(EvError ''Unable to update from web: %v'' er, fs w1)])"
    using t by simp
  from newEvents_append [OF this] show ?thesis by (simp add: image_iff)
qed

text \<open>\<open>Open\<close> fails exactly when the directory cannot be created.\<close>

lemma Open_error_iff:
  "(\<exists>er. fst (Open u path interval cb su w) = Inl er) =
     (fst (filepath_Split path) \<noteq> [] \<and>
      (\<exists>oe. mkdirErr su = Some oe \<and> \<not> os_IsExist (OsErr oe)))"
  by (auto simp: Open_def Let_def split: option.splits prod.splits if_splits)

lemma program_result:
  "fst (program F u path interval cb su es w) =
     (case fst (Open u path interval cb su w) of Inl er \<Rightarrow> Some er | Inr g \<Rightarrow> None)"
  by (auto simp: program_def split: prod.splits sum.splits)

text \<open>
  \<open>readInitial\<close> calls \<open>file.Close()\<close> before \<open>file.Stat()\<close>, so \<open>Stat\<close> fails and
  the date stays the zero time, whatever the file and the callback.
\<close>

lemma readInitial_zero: "fst (readInitial c fault w) = zeroTime"
  by (auto simp: readInitial_def os_Open_def File_Close_def File_Stat_def Let_def
           split: option.splits sum.splits prod.splits)


text \<open>
  The loop from its start, exactly: it probes in every cycle up to and including the
  first one whose probe succeeds, selects in that cycle, and fetches in that cycle and in
  every later one.
\<close>

lemma loop_None_exact:
  "\<exists>evs. trace (snd (keepCurrent_loop F c d None es w)) = trace w @ evs \<and>
         probes evs = min (length es) (Suc (length (takeWhile (probeFails c) es))) \<and>
         selections evs = (if list_all (probeFails c) es then 0 else 1) \<and>
         fetches evs = length (dropWhile (probeFails c) es) \<and>
         (fst (keepCurrent_loop F c d None es w) = None) = list_all (probeFails c) es"
proof (induction es arbitrary: w)
  case Nil
  then show ?case by (simp add: selections_def probes_def fetches_def)
next
  case (Cons e es)
  show ?case
  proof (cases "http_Head e (url c)")
    case (Inl er)
    then have pf: "probeFails c e" by (simp add: probeFails_def)
    define w2 where "w2 = emit (EvSleep (checkInterval c)) (snd (checkUpdates F c d None e w))"
    have tw2: "trace w2 = trace w @
        [(EvInfo ''Cache scheme unknown, issue HEAD request to determine scheme'', fs w),
         (EvHead (url c), fs w),
         (EvError ''Unable to request modified of %v: %v'' er, fs w),
         (EvSleep (checkInterval c), fs w)]"
      unfolding w2_def using checkUpdates_None_fail [OF Inl, of F d w] by simp
    have l: "keepCurrent_loop F c d None (e # es) w = keepCurrent_loop F c d None es w2"
      unfolding w2_def using checkUpdates_None_fail [OF Inl, of F d w] by simp
    from Cons.IH [of w2] obtain evs where
      ih: "trace (snd (keepCurrent_loop F c d None es w2)) = trace w2 @ evs \<and>
           probes evs = min (length es) (Suc (length (takeWhile (probeFails c) es))) \<and>
           selections evs = (if list_all (probeFails c) es then 0 else 1) \<and>
           fetches evs = length (dropWhile (probeFails c) es) \<and>
           (fst (keepCurrent_loop F c d None es w2) = None) = list_all (probeFails c) es"
      by (rule exE)
    note t = ih [THEN conjunct1]
    note p = ih [THEN conjunct2, THEN conjunct1]
    note s = ih [THEN conjunct2, THEN conjunct2, THEN conjunct1]
    note f = ih [THEN conjunct2, THEN conjunct2, THEN conjunct2, THEN conjunct1]
    note n = ih [THEN conjunct2, THEN conjunct2, THEN conjunct2, THEN conjunct2]
    let ?evs = "[(EvInfo ''Cache scheme unknown, issue HEAD request to determine scheme'', fs w),
         (EvHead (url c), fs w),
         (EvError ''Unable to request modified of %v: %v'' er, fs w),
         (EvSleep (checkInterval c), fs w)] @ evs"
    have a1: "trace (snd (keepCurrent_loop F c d None (e # es) w)) = trace w @ ?evs"
      unfolding l using t tw2 by simp
    have a2: "probes ?evs = min (length (e # es)) (Suc (length (takeWhile (probeFails c) (e # es))))"
      using p pf by (simp add: probes_def)
    have a3: "selections ?evs = (if list_all (probeFails c) (e # es) then 0 else 1)"
      using s pf by (simp add: selections_def)
    have a4: "fetches ?evs = length (dropWhile (probeFails c) (e # es))"
      using f pf by (simp add: fetches_def)
    have a5: "(fst (keepCurrent_loop F c d None (e # es) w) = None) = list_all (probeFails c) (e # es)"
      unfolding l using n pf by simp
    show ?thesis
      by (rule exI [of _ "?evs"]) (intro conjI a1 a2 a3 a4 a5)
  next
    case (Inr hr)
    then have pf: "\<not> probeFails c e" by (simp add: probeFails_def)
    define w1 where "w1 = snd (checkUpdates F c d None e w)"
    from checkUpdates_None_ok [OF Inr w1_def [symmetric]] obtain s1 evs1 where
      c1: "checkUpdates F c d None e w = (Some s1, w1)"
      and t1: "trace w1 = trace w @ evs1" and n1: "selections evs1 = 1"
      and p1: "probes evs1 = 1" and f1: "fetches evs1 = 1"
      by auto
    define w2 where "w2 = emit (EvSleep (checkInterval c)) w1"
    define w3 where "w3 = snd (keepCurrent_loop F c d (Some s1) es w2)"
    from loop_Some [OF w3_def [symmetric]] obtain s3 evs2 where
      l3: "keepCurrent_loop F c d (Some s1) es w2 = (Some s3, w3)"
      and t2: "trace w3 = trace w2 @ evs2" and q2: "quiet evs2" and f2: "fetches evs2 = length es"
      by auto
    have l: "keepCurrent_loop F c d None (e # es) w = (Some s3, w3)"
      using c1 l3 by (simp add: w2_def)
    let ?evs = "evs1 @ (EvSleep (checkInterval c), fs w1) # evs2"
    have a1: "trace (snd (keepCurrent_loop F c d None (e # es) w)) = trace w @ ?evs"
      unfolding l using t1 t2 by (simp add: w2_def)
    have a2: "probes ?evs = min (length (e # es)) (Suc (length (takeWhile (probeFails c) (e # es))))"
      using p1 quiet_probes [OF q2] pf by (simp add: probes_def)
    have a3: "selections ?evs = (if list_all (probeFails c) (e # es) then 0 else 1)"
      using n1 quiet_selections [OF q2] pf by (simp add: selections_def)
    have a4: "fetches ?evs = length (dropWhile (probeFails c) (e # es))"
      using f1 f2 pf by (simp add: fetches_def)
    have a5: "(fst (keepCurrent_loop F c d None (e # es) w) = None) = list_all (probeFails c) (e # es)"
      unfolding l using pf by simp
    show ?thesis
      by (rule exI [of _ "?evs"]) (intro conjI a1 a2 a3 a4 a5)
  qed
qed

text \<open>One cycle of a loop that has its scheme is \<open>updateFromWeb\<close> on that scheme.\<close>

lemma loop_Some_step:
  "keepCurrent_loop F c d (Some s) (e # es) w =
     (case updateFromWeb c s e w of
        (r, s', w') \<Rightarrow>
          keepCurrent_loop F c d (Some s') es
            (emit (EvSleep (checkInterval c))
               (case r of None \<Rightarrow> w'
                | Some er \<Rightarrow> emit (EvError ''Unable to update from web: %v'' er) w')))"
  by (simp add: checkUpdates_def split: prod.splits option.splits)

text \<open>
  The cycle that selects the scheme goes on as a cycle that has it: with the scheme
  just constructed, after the three log and probe events.
\<close>

lemma checkUpdates_None_unfold:
  assumes "http_Head e (url c) = Inr hr"
  shows "checkUpdates F c d None e w =
           checkUpdates F c d
             (Some (if Header_Get (Header hr) lastModifiedHeader \<noteq> [] then lastModifiedScheme (F d)
                    else if Header_Get (Header hr) etagHeader \<noteq> [] then etagScheme []
                    else noopScheme)) e
             (emit (EvInfo (if Header_Get (Header hr) lastModifiedHeader \<noteq> []
                            then ''Will use %v to determine when file changes''
                            else if Header_Get (Header hr) etagHeader \<noteq> []
                            then ''Will use %v to determine when file changes''
                            else ''Will always assume file changed''))
                (emit (EvHead (url c))
                   (emit (EvInfo ''Cache scheme unknown, issue HEAD request to determine scheme'') w)))"
  using assms by (simp add: checkUpdates_def Let_def)

lemma checkUpdates_logs_trace:
  assumes "fst (updateFromWeb c s e w) = Some er"
  shows "\<exists>evs. trace (snd (checkUpdates F c d (Some s) e w)) =
           trace w @ evs @ [(EvError ''Unable to update from web: %v'' er,
                             fs (snd (snd (updateFromWeb c s e w))))]"
proof -
  obtain s1 w1 where u: "updateFromWeb c s e w = (Some er, s1, w1)"
    using assms by (cases "updateFromWeb c s e w") auto
  from updateFromWeb_trace [of c s e w] u obtain evs where
    t: "trace w1 = trace w @ (EvDo (prepareRequest s (http_NewRequest ''GET'' (url c))), fs w) # evs"
    by auto
  have "checkUpdates F c d (Some s) e w =
          (Some s1, emit (EvError ''Unable to update from web: %v'' er) w1)"
    using u by (simp add: checkUpdates_def)
  then have "trace (snd (checkUpdates F c d (Some s) e w)) =
               trace w @ ((EvDo (prepareRequest s (http_NewRequest ''GET'' (url c))), fs w) # evs) @
                 [(EvError ''Unable to update from web: %v'' er, fs w1)]"
    using t by simp
  with u show ?thesis by (metis snd_conv)
qed

lemma checkUpdates_logs_selecting:
  assumes "http_Head e (url c) = Inr hr"
      and "fst (updateFromWeb c
                 (if Header_Get (Header hr) lastModifiedHeader \<noteq> [] then lastModifiedScheme (F d)
                  else if Header_Get (Header hr) etagHeader \<noteq> [] then etagScheme []
                  else noopScheme) e
                 (emit (EvInfo (if Header_Get (Header hr) lastModifiedHeader \<noteq> []
                                then ''Will use %v to determine when file changes''
                                else if Header_Get (Header hr) etagHeader \<noteq> []
                                then ''Will use %v to determine when file changes''
                                else ''Will always assume file changed''))
                    (emit (EvHead (url c))
                       (emit (EvInfo ''Cache scheme unknown, issue HEAD request to determine scheme'') w)))) =
             Some er"
  shows "EvError ''Unable to update from web: %v'' er \<in>
           fst ` set (newEvents w (snd (checkUpdates F c d None e w)))"
proof -
  define s0 where "s0 =
    (if Header_Get (Header hr) lastModifiedHeader \<noteq> [] then lastModifiedScheme (F d)
     else if Header_Get (Header hr) etagHeader \<noteq> [] then etagScheme [] else noopScheme)"
  define w0 where "w0 =
    emit (EvInfo (if Header_Get (Header hr) lastModifiedHeader \<noteq> []
                  then ''Will use %v to determine when file changes''
                  else if Header_Get (Header hr) etagHeader \<noteq> []
                  then ''Will use %v to determine when file changes''
                  else ''Will always assume file changed''))
      (emit (EvHead (url c))
         (emit (EvInfo ''Cache scheme unknown, issue HEAD request to determine scheme'') w))"
  have eq: "checkUpdates F c d None e w = checkUpdates F c d (Some s0) e w0"
    unfolding s0_def w0_def by (rule checkUpdates_None_unfold [OF assms(1)])
  have "fst (updateFromWeb c s0 e w0) = Some er"
    using assms(2) unfolding s0_def w0_def .
  from checkUpdates_logs_trace [OF this, of F d] obtain evs where
    t: "trace (snd (checkUpdates F c d (Some s0) e w0)) =
          trace w0 @ evs @ [(EvError ''Unable to update from web: %v'' er,
                             fs (snd (snd (updateFromWeb c s0 e w0))))]"
    by blast
  obtain pre where "trace w0 = trace w @ pre" by (simp add: w0_def)
  with t have "trace (snd (checkUpdates F c d None e w)) =
      trace w @ (pre @ evs @ [(EvError ''Unable to update from web: %v'' er,
                               fs (snd (snd (updateFromWeb c s0 e w0))))])"
    unfolding eq by simp
  from newEvents_append [OF this] show ?thesis by (simp add: image_iff)
qed

text \<open>
  Runs in which nothing can be reached. When every probe fails, every cycle logs one
  error, the callback is never invoked and the file system stays as it is. When the loop
  has its scheme and every request fails, the same holds, and the scheme is kept as it is.
\<close>

lemma loop_unreachable:
  assumes "list_all (probeFails c) es"
  shows "\<exists>evs. trace (snd (keepCurrent_loop F c d None es w)) = trace w @ evs \<and>
           errorLogs evs = length es \<and> callbacks evs = 0 \<and>
           fs (snd (keepCurrent_loop F c d None es w)) = fs w"
  using assms
proof (induction es arbitrary: w)
  case Nil
  then show ?case by (simp add: errorLogs_def callbacks_def)
next
  case (Cons e es)
  from Cons.prems have pf: "probeFails c e" and rest: "list_all (probeFails c) es" by simp_all
  from pf obtain er where h: "http_Head e (url c) = Inl er"
    by (auto simp: probeFails_def split: sum.splits)
  define w2 where "w2 = emit (EvSleep (checkInterval c)) (snd (checkUpdates F c d None e w))"
  let ?evs = "[(EvInfo ''Cache scheme unknown, issue HEAD request to determine scheme'', fs w),
         (EvHead (url c), fs w),
         (EvError ''Unable to request modified of %v: %v'' er, fs w),
         (EvSleep (checkInterval c), fs w)]"
  have tw2: "trace w2 = trace w @ ?evs" and fw2: "fs w2 = fs w"
    unfolding w2_def using checkUpdates_None_fail [OF h, of F d w] by simp_all
  have l: "keepCurrent_loop F c d None (e # es) w = keepCurrent_loop F c d None es w2"
    unfolding w2_def using checkUpdates_None_fail [OF h, of F d w] by simp
  from Cons.IH [OF rest, of w2] obtain evs where
    ih: "trace (snd (keepCurrent_loop F c d None es w2)) = trace w2 @ evs \<and>
         errorLogs evs = length es \<and> callbacks evs = 0 \<and>
         fs (snd (keepCurrent_loop F c d None es w2)) = fs w2"
    by (rule exE)
  have a1: "trace (snd (keepCurrent_loop F c d None (e # es) w)) = trace w @ (?evs @ evs)"
    unfolding l using ih [THEN conjunct1] tw2 by simp
  have a2: "errorLogs (?evs @ evs) = length (e # es)"
    using ih [THEN conjunct2, THEN conjunct1] by (simp add: errorLogs_def)
  have a3: "callbacks (?evs @ evs) = 0"
    using ih [THEN conjunct2, THEN conjunct2, THEN conjunct1] by (simp add: callbacks_def)
  have a4: "fs (snd (keepCurrent_loop F c d None (e # es) w)) = fs w"
    unfolding l using ih [THEN conjunct2, THEN conjunct2, THEN conjunct2] fw2 by simp
  show ?case
    by (rule exI [of _ "?evs @ evs"]) (intro conjI a1 a2 a3 a4)
qed

lemma checkUpdates_fetch_fails:
  assumes "client_Do e (prepareRequest s (http_NewRequest ''GET'' (url c))) = Inl er"
  shows "checkUpdates F c d (Some s) e w =
           (Some s, w\<lparr>trace := trace w @
              [(EvDo (prepareRequest s (http_NewRequest ''GET'' (url c))), fs w),
               (EvError ''Unable to update from web: %v'' (Wrapped ''Unable to update from web: %v'' er),
                fs w)]\<rparr>)"
  using assms by (simp add: checkUpdates_def updateFromWeb_def Let_def emit_def)

lemma loop_fetch_fails:
  assumes "list_all (fetchFails c s) es"
  shows "\<exists>evs. trace (snd (keepCurrent_loop F c d (Some s) es w)) = trace w @ evs \<and>
           errorLogs evs = length es \<and> callbacks evs = 0 \<and>
           fs (snd (keepCurrent_loop F c d (Some s) es w)) = fs w \<and>
           fst (keepCurrent_loop F c d (Some s) es w) = Some s"
  using assms
proof (induction es arbitrary: w)
  case Nil
  then show ?case by (simp add: errorLogs_def callbacks_def)
next
  case (Cons e es)
  from Cons.prems have ff: "fetchFails c s e" and rest: "list_all (fetchFails c s) es" by simp_all
  from ff obtain er where h: "client_Do e (prepareRequest s (http_NewRequest ''GET'' (url c))) = Inl er"
    by (auto simp: fetchFails_def split: sum.splits)
  define w2 where "w2 = emit (EvSleep (checkInterval c)) (snd (checkUpdates F c d (Some s) e w))"
  let ?evs = "[(EvDo (prepareRequest s (http_NewRequest ''GET'' (url c))), fs w),
               (EvError ''Unable to update from web: %v'' (Wrapped ''Unable to update from web: %v'' er),
                fs w),
               (EvSleep (checkInterval c), fs w)]"
  have tw2: "trace w2 = trace w @ ?evs" and fw2: "fs w2 = fs w"
    unfolding w2_def using checkUpdates_fetch_fails [OF h, of F d w] by simp_all
  have l: "keepCurrent_loop F c d (Some s) (e # es) w = keepCurrent_loop F c d (Some s) es w2"
    unfolding w2_def using checkUpdates_fetch_fails [OF h, of F d w] by simp
  from Cons.IH [OF rest, of w2] obtain evs where
    ih: "trace (snd (keepCurrent_loop F c d (Some s) es w2)) = trace w2 @ evs \<and>
         errorLogs evs = length es \<and> callbacks evs = 0 \<and>
         fs (snd (keepCurrent_loop F c d (Some s) es w2)) = fs w2 \<and>
         fst (keepCurrent_loop F c d (Some s) es w2) = Some s"
    by (rule exE)
  have a1: "trace (snd (keepCurrent_loop F c d (Some s) (e # es) w)) = trace w @ (?evs @ evs)"
    unfolding l using ih [THEN conjunct1] tw2 by simp
  have a2: "errorLogs (?evs @ evs) = length (e # es)"
    using ih [THEN conjunct2, THEN conjunct1] by (simp add: errorLogs_def)
  have a3: "callbacks (?evs @ evs) = 0"
    using ih [THEN conjunct2, THEN conjunct2, THEN conjunct1] by (simp add: callbacks_def)
  have a4: "fs (snd (keepCurrent_loop F c d (Some s) (e # es) w)) = fs w"
    unfolding l using ih [THEN conjunct2, THEN conjunct2, THEN conjunct2, THEN conjunct1] fw2 by simp
  have a5: "fst (keepCurrent_loop F c d (Some s) (e # es) w) = Some s"
    unfolding l by (rule ih [THEN conjunct2, THEN conjunct2, THEN conjunct2, THEN conjunct2])
  show ?case
    by (rule exI [of _ "?evs @ evs"]) (intro conjI a1 a2 a3 a4 a5)
qed

section \<open>Properties\<close>

subsection \<open>C1: a callback that rejects the fetched body\<close>

text \<open>
  C1, as amended. When the fetched body is delivered to the callback and the callback
  returns an error, \<open>updateFromWeb\<close> returns that error, the file system is the one
  from before the cycle and the only events are the request and the callback: no file is
  written. The scheme's token is not kept: \<open>onResponse\<close> has already replaced it by
  the header value of the response.
\<close>

theorem callback_failure_keeps_file:
  assumes "client_Do e (prepareRequest s (http_NewRequest ''GET'' (url c))) = Inr resp"
      and "StatusCode resp \<noteq> StatusNotModified"
      and "Body resp = Inr data"
      and "onUpdate c data = Some er"
  shows "updateFromWeb c s e w =
           (Some er, onResponse s resp,
            w\<lparr>trace := trace w @
               [(EvDo (prepareRequest s (http_NewRequest ''GET'' (url c))), fs w),
                (EvOnUpdate data, fs w)]\<rparr>)"
  using assms by (simp add: updateFromWeb_def Let_def emit_def)

text \<open>
  An instance: the server answers with a newer \<open>Last-Modified\<close> and the callback
  rejects the body.
\<close>

theorem callback_failure_keeps_file_witness:
  "client_Do (exEnv (Inr (exResponse 200 [(''Last-Modified'', ''later'')] ''new'')) False)
      (prepareRequest (lastModifiedScheme ''sooner'') (http_NewRequest ''GET'' (url (exCache reject)))) =
     Inr (exResponse 200 [(''Last-Modified'', ''later'')] ''new'')
   \<and> StatusCode (exResponse 200 [(''Last-Modified'', ''later'')] ''new'') \<noteq> StatusNotModified
   \<and> Body (exResponse 200 [(''Last-Modified'', ''later'')] ''new'') = Inr ''new''
   \<and> onUpdate (exCache reject) ''new'' = Some (CbErr ''rejected'')
   \<and> updateFromWeb (exCache reject) (lastModifiedScheme ''sooner'')
        (exEnv (Inr (exResponse 200 [(''Last-Modified'', ''later'')] ''new'')) False) exWorld =
       (Some (CbErr ''rejected''), lastModifiedScheme ''later'',
        exWorld\<lparr>trace :=
          [(EvDo \<lparr>Method = ''GET'', URL = ''http://host/data'',
                  ReqHeader = [''If-Modified-Since'' \<mapsto> [''sooner'']]\<rparr>, fs exWorld),
           (EvOnUpdate ''new'', fs exWorld)]\<rparr>)"
  using callback_failure_keeps_file
    [of "exEnv (Inr (exResponse 200 [(''Last-Modified'', ''later'')] ''new'')) False"
      "lastModifiedScheme ''sooner''" "exCache reject"
      "exResponse 200 [(''Last-Modified'', ''later'')] ''new''" "''new''" "CbErr ''rejected''" exWorld]
  by (simp add: ex_defs)

text \<open>
  The token does not stay as it was: the scheme holds the entity tag \<open>a\<close>, the server
  answers with the entity tag \<open>b\<close>, the callback rejects the body, and the scheme no
  longer holds \<open>a\<close>.
\<close>

theorem callback_failure_token_counterexample:
  "fst (updateFromWeb (exCache reject) (etagScheme ''a'')
          (exEnv (Inr (exResponse 200 [(''ETag'', ''b'')] ''new'')) False) exWorld) =
     Some (CbErr ''rejected'')
   \<and> fst (snd (updateFromWeb (exCache reject) (etagScheme ''a'')
          (exEnv (Inr (exResponse 200 [(''ETag'', ''b'')] ''new'')) False) exWorld)) = etagScheme ''b''
   \<and> etagScheme ''b'' \<noteq> etagScheme ''a''"
  by (simp add: updateFromWeb_def Let_def ex_defs)

subsection \<open>C2: replacing the cache file\<close>




subsection \<open>C3: a response that is not modified\<close>



subsection \<open>C4: which scheme the probe selects\<close>

text \<open>
  C4. After a successful HEAD probe the scheme is the modification-time scheme when
  the response has a \<open>Last-Modified\<close> value (\<open>Header.Get\<close> is not the empty string),
  otherwise the entity-tag scheme when it has an \<open>ETag\<close> value, otherwise the no-op
  scheme.
\<close>

theorem scheme_precedence:
  assumes "http_Head e (url c) = Inr headResp"
  shows "map_option kindOf (fst (checkUpdates Format c initialDate None e w)) =
           Some (if Header_Get (Header headResp) lastModifiedHeader \<noteq> [] then KLastModified
                 else if Header_Get (Header headResp) etagHeader \<noteq> [] then KEtag
                 else KNoop)"
proof -
  define w' where "w' = snd (checkUpdates Format c initialDate None e w)"
  from checkUpdates_None_ok [OF assms w'_def [symmetric]] obtain s' where
    "checkUpdates Format c initialDate None e w = (Some s', w')"
    and "kindOf s' = (if Header_Get (Header headResp) lastModifiedHeader \<noteq> [] then KLastModified
                      else if Header_Get (Header headResp) etagHeader \<noteq> [] then KEtag else KNoop)"
    by blast
  then show ?thesis by simp
qed

theorem scheme_precedence_witness:
  "http_Head (exEnv (Inr (exResponse 200 [(''Last-Modified'', ''x''), (''ETag'', ''y'')] ''new'')) False)
      (url (exCache accept)) =
     Inr (exResponse 200 [(''Last-Modified'', ''x''), (''ETag'', ''y'')] ''new'')
   \<and> map_option kindOf (fst (checkUpdates exFormat (exCache accept) 0 None
        (exEnv (Inr (exResponse 200 [(''Last-Modified'', ''x''), (''ETag'', ''y'')] ''new'')) False) exWorld)) =
       Some KLastModified
   \<and> map_option kindOf (fst (checkUpdates exFormat (exCache accept) 0 None
        (exEnv (Inr (exResponse 200 [(''ETag'', ''y'')] ''new'')) False) exWorld)) = Some KEtag
   \<and> map_option kindOf (fst (checkUpdates exFormat (exCache accept) 0 None
        (exEnv (Inr (exResponse 200 [] ''new'')) False) exWorld)) = Some KNoop"
proof -
  have lm: "Header_Get (Header (exResponse 200 [(''Last-Modified'', ''x''), (''ETag'', ''y'')] ''new''))
              lastModifiedHeader = ''x''"
    by (simp add: ex_defs)
  have et: "Header_Get (Header (exResponse 200 [(''ETag'', ''y'')] ''new'')) lastModifiedHeader = []"
    "Header_Get (Header (exResponse 200 [(''ETag'', ''y'')] ''new'')) etagHeader = ''y''"
    by (simp_all add: ex_defs)
  have no: "Header_Get (Header (exResponse 200 [] ''new'')) lastModifiedHeader = []"
    "Header_Get (Header (exResponse 200 [] ''new'')) etagHeader = []"
    by (simp_all add: ex_defs)
  have h: "\<And>r. http_Head (exEnv (Inr r) False) (url (exCache accept)) = Inr r"
    by (simp add: exEnv_def)
  have a: "\<And>r. map_option kindOf (fst (checkUpdates exFormat (exCache accept) 0 None
              (exEnv (Inr r) False) exWorld)) =
            Some (if Header_Get (Header r) lastModifiedHeader \<noteq> [] then KLastModified
                  else if Header_Get (Header r) etagHeader \<noteq> [] then KEtag else KNoop)"
    by (rule scheme_precedence [OF h])
  have a1: "map_option kindOf (fst (checkUpdates exFormat (exCache accept) 0 None
        (exEnv (Inr (exResponse 200 [(''Last-Modified'', ''x''), (''ETag'', ''y'')] ''new'')) False) exWorld)) =
       Some KLastModified"
    unfolding a lm by simp
  have a2: "map_option kindOf (fst (checkUpdates exFormat (exCache accept) 0 None
        (exEnv (Inr (exResponse 200 [(''ETag'', ''y'')] ''new'')) False) exWorld)) = Some KEtag"
    unfolding a et by simp
  have a3: "map_option kindOf (fst (checkUpdates exFormat (exCache accept) 0 None
        (exEnv (Inr (exResponse 200 [] ''new'')) False) exWorld)) = Some KNoop"
    unfolding a no by simp
  show ?thesis
    by (intro conjI h a1 a2 a3)
qed

subsection \<open>C5: the scheme is selected once\<close>

text \<open>
  C5. A cycle without a scheme always probes, and it leaves the scheme unset exactly
  when the probe fails. A loop that has a scheme keeps a scheme of the same
  implementation through any number of cycles, whatever the environments do; in those
  cycles it neither probes nor selects, each cycle is \<open>updateFromWeb\<close> on the scheme
  the cycle before has left, and so it sends one request per cycle. A run of the loop
  from its start probes in every cycle up to and including the first one whose probe
  succeeds and in no later one; it selects once, in that cycle, and never when every
  probe fails; it fetches in that cycle and in every later one; and it is without a
  scheme at the end exactly when every probe has failed.
\<close>

theorem scheme_selected_once:
  "EvHead (url c) \<in> fst ` set (newEvents w (snd (checkUpdates Format c initialDate None e w)))
   \<and> (fst (checkUpdates Format c initialDate None e w) = None) =
       (\<exists>er. http_Head e (url c) = Inl er)
   \<and> map_option kindOf (fst (keepCurrent_loop Format c initialDate (Some s) es w)) = Some (kindOf s)
   \<and> quiet (newEvents w (snd (keepCurrent_loop Format c initialDate (Some s) es w)))
   \<and> selections (newEvents w (snd (keepCurrent Format c initialDate es w))) \<le> 1
   \<and> probes (newEvents w (snd (keepCurrent_loop Format c initialDate (Some s) es w))) = 0
   \<and> fetches (newEvents w (snd (keepCurrent_loop Format c initialDate (Some s) es w))) = length es
   \<and> keepCurrent_loop Format c initialDate (Some s) (e # es) w =
       (case updateFromWeb c s e w of
          (r, s', w') \<Rightarrow>
            keepCurrent_loop Format c initialDate (Some s') es
              (emit (EvSleep (checkInterval c))
                 (case r of None \<Rightarrow> w'
                  | Some er \<Rightarrow> emit (EvError ''Unable to update from web: %v'' er) w')))
   \<and> probes (newEvents w (snd (keepCurrent Format c initialDate es w))) =
       min (length es) (Suc (length (takeWhile (probeFails c) es)))
   \<and> selections (newEvents w (snd (keepCurrent Format c initialDate es w))) =
       (if list_all (probeFails c) es then 0 else 1)
   \<and> fetches (newEvents w (snd (keepCurrent Format c initialDate es w))) =
       length (dropWhile (probeFails c) es)
   \<and> (fst (keepCurrent Format c initialDate es w) = None) = list_all (probeFails c) es"
proof -
  have probe: "EvHead (url c) \<in> fst ` set (newEvents w (snd (checkUpdates Format c initialDate None e w)))"
    and unset: "(fst (checkUpdates Format c initialDate None e w) = None) = (\<exists>er. http_Head e (url c) = Inl er)"
  proof -
    have "EvHead (url c) \<in> fst ` set (newEvents w (snd (checkUpdates Format c initialDate None e w)))
      \<and> (fst (checkUpdates Format c initialDate None e w) = None) = (\<exists>er. http_Head e (url c) = Inl er)"
    proof (cases "http_Head e (url c)")
      case (Inl er)
      from checkUpdates_None_fail [OF Inl, of Format initialDate w] Inl show ?thesis
        by (simp add: newEvents_def)
    next
      case (Inr hr)
      define w' where "w' = snd (checkUpdates Format c initialDate None e w)"
      from checkUpdates_None_ok [OF Inr w'_def [symmetric]] obtain s' evs where
        cu: "checkUpdates Format c initialDate None e w = (Some s', w')"
        and t: "trace w' = trace w @ evs"
        and h: "EvHead (url c) \<in> fst ` set evs"
        by auto
      from newEvents_append [OF t] h have "EvHead (url c) \<in> fst ` set (newEvents w w')" by simp
      with cu Inr show ?thesis by simp
    qed
    then show "EvHead (url c) \<in> fst ` set (newEvents w (snd (checkUpdates Format c initialDate None e w)))"
      and "(fst (checkUpdates Format c initialDate None e w) = None) = (\<exists>er. http_Head e (url c) = Inl er)"
      by (rule conjunct1, rule conjunct2)
  qed
  define w' where "w' = snd (keepCurrent_loop Format c initialDate (Some s) es w)"
  from loop_Some [OF w'_def [symmetric]] obtain s' evs where
    l: "keepCurrent_loop Format c initialDate (Some s) es w = (Some s', w')"
    and k: "kindOf s' = kindOf s"
    and t: "trace w' = trace w @ evs"
    and q: "quiet evs"
    and f: "fetches evs = length es"
    by auto
  have kept: "map_option kindOf (fst (keepCurrent_loop Format c initialDate (Some s) es w)) = Some (kindOf s)"
    using l k by simp
  have silent: "quiet (newEvents w (snd (keepCurrent_loop Format c initialDate (Some s) es w)))"
    using newEvents_append [OF t] q l by simp
  have noprobe: "probes (newEvents w (snd (keepCurrent_loop Format c initialDate (Some s) es w))) = 0"
    using newEvents_append [OF t] quiet_probes [OF q] l by simp
  have every: "fetches (newEvents w (snd (keepCurrent_loop Format c initialDate (Some s) es w))) = length es"
    using newEvents_append [OF t] f l by simp
  from loop_None_exact [of Format c initialDate es w] obtain evs' where
    ex: "trace (snd (keepCurrent_loop Format c initialDate None es w)) = trace w @ evs' \<and>
         probes evs' = min (length es) (Suc (length (takeWhile (probeFails c) es))) \<and>
         selections evs' = (if list_all (probeFails c) es then 0 else 1) \<and>
         fetches evs' = length (dropWhile (probeFails c) es) \<and>
         (fst (keepCurrent_loop Format c initialDate None es w) = None) = list_all (probeFails c) es"
    by (rule exE)
  note t' = ex [THEN conjunct1]
  have ne: "newEvents w (snd (keepCurrent Format c initialDate es w)) = evs'"
    unfolding keepCurrent_def by (rule newEvents_append [OF t'])
  have p10: "probes (newEvents w (snd (keepCurrent Format c initialDate es w))) =
       min (length es) (Suc (length (takeWhile (probeFails c) es)))"
    unfolding ne by (rule ex [THEN conjunct2, THEN conjunct1])
  have p11: "selections (newEvents w (snd (keepCurrent Format c initialDate es w))) =
       (if list_all (probeFails c) es then 0 else 1)"
    unfolding ne by (rule ex [THEN conjunct2, THEN conjunct2, THEN conjunct1])
  have p12: "fetches (newEvents w (snd (keepCurrent Format c initialDate es w))) =
       length (dropWhile (probeFails c) es)"
    unfolding ne by (rule ex [THEN conjunct2, THEN conjunct2, THEN conjunct2, THEN conjunct1])
  have p13: "(fst (keepCurrent Format c initialDate es w) = None) = list_all (probeFails c) es"
    unfolding keepCurrent_def by (rule ex [THEN conjunct2, THEN conjunct2, THEN conjunct2, THEN conjunct2])
  have once: "selections (newEvents w (snd (keepCurrent Format c initialDate es w))) \<le> 1"
    unfolding p11 by simp
  show ?thesis
    by (intro conjI probe unset kept silent once noprobe every loop_Some_step p10 p11 p12 p13)
qed

text \<open>
  An instance, with a server that cannot be reached and one that answers 200 with the
  entity tag \<open>a\<close>. A probe that fails leaves the scheme unset. A loop that holds the
  entity-tag scheme keeps it over a cycle whose request fails, does not probe and sends
  its request. Two cycles without a reachable server probe twice and end without a
  scheme. Of three cycles, the second with the server reachable, the first two probe, the
  second selects, and the last two fetch.
\<close>

theorem scheme_selected_once_witness:
  "fst (checkUpdates exFormat (exCache accept) 0 None (exEnv (Inl (NetErr ''unreachable'')) False) exWorld) = None
   \<and> EvHead ''http://host/data'' \<in> fst ` set (newEvents exWorld (snd (checkUpdates exFormat (exCache accept) 0 None
        (exEnv (Inl (NetErr ''unreachable'')) False) exWorld)))
   \<and> map_option kindOf (fst (keepCurrent_loop exFormat (exCache accept) 0 (Some (etagScheme ''a''))
        [exEnv (Inl (NetErr ''unreachable'')) False] exWorld)) = Some KEtag
   \<and> quiet (newEvents exWorld (snd (keepCurrent_loop exFormat (exCache accept) 0 (Some (etagScheme ''a''))
        [exEnv (Inl (NetErr ''unreachable'')) False] exWorld)))
   \<and> selections (newEvents exWorld (snd (keepCurrent exFormat (exCache accept) 0
        [exEnv (Inl (NetErr ''unreachable'')) False,
         exEnv (Inr (exResponse 200 [(''ETag'', ''a'')] ''new'')) False,
         exEnv (Inl (NetErr ''unreachable'')) False] exWorld))) \<le> 1
   \<and> probes (newEvents exWorld (snd (keepCurrent_loop exFormat (exCache accept) 0 (Some (etagScheme ''a''))
        [exEnv (Inl (NetErr ''unreachable'')) False] exWorld))) = 0
   \<and> fetches (newEvents exWorld (snd (keepCurrent_loop exFormat (exCache accept) 0 (Some (etagScheme ''a''))
        [exEnv (Inl (NetErr ''unreachable'')) False] exWorld))) = 1
   \<and> probes (newEvents exWorld (snd (keepCurrent exFormat (exCache accept) 0
        [exEnv (Inl (NetErr ''unreachable'')) False, exEnv (Inl (NetErr ''unreachable'')) False] exWorld))) = 2
   \<and> fst (keepCurrent exFormat (exCache accept) 0
        [exEnv (Inl (NetErr ''unreachable'')) False, exEnv (Inl (NetErr ''unreachable'')) False] exWorld) = None
   \<and> probes (newEvents exWorld (snd (keepCurrent exFormat (exCache accept) 0
        [exEnv (Inl (NetErr ''unreachable'')) False,
         exEnv (Inr (exResponse 200 [(''ETag'', ''a'')] ''new'')) False,
         exEnv (Inl (NetErr ''unreachable'')) False] exWorld))) = 2
   \<and> selections (newEvents exWorld (snd (keepCurrent exFormat (exCache accept) 0
        [exEnv (Inl (NetErr ''unreachable'')) False,
         exEnv (Inr (exResponse 200 [(''ETag'', ''a'')] ''new'')) False,
         exEnv (Inl (NetErr ''unreachable'')) False] exWorld))) = 1
   \<and> fetches (newEvents exWorld (snd (keepCurrent exFormat (exCache accept) 0
        [exEnv (Inl (NetErr ''unreachable'')) False,
         exEnv (Inr (exResponse 200 [(''ETag'', ''a'')] ''new'')) False,
         exEnv (Inl (NetErr ''unreachable'')) False] exWorld))) = 2
   \<and> fst (keepCurrent exFormat (exCache accept) 0
        [exEnv (Inl (NetErr ''unreachable'')) False,
         exEnv (Inr (exResponse 200 [(''ETag'', ''a'')] ''new'')) False,
         exEnv (Inl (NetErr ''unreachable'')) False] exWorld) \<noteq> None"
proof -
  have pf: "probeFails (exCache accept) (exEnv (Inl (NetErr ''unreachable'')) False)"
    by (simp add: probeFails_def exEnv_def)
  have po: "\<not> probeFails (exCache accept) (exEnv (Inr (exResponse 200 [(''ETag'', ''a'')] ''new'')) False)"
    by (simp add: probeFails_def exEnv_def)
  note a = scheme_selected_once [of "exCache accept" exWorld exFormat 0
      "exEnv (Inl (NetErr ''unreachable'')) False" "etagScheme ''a''"
      "[exEnv (Inl (NetErr ''unreachable'')) False]"]
  note b = scheme_selected_once [of "exCache accept" exWorld exFormat 0
      "exEnv (Inl (NetErr ''unreachable'')) False" "etagScheme ''a''"
      "[exEnv (Inl (NetErr ''unreachable'')) False, exEnv (Inl (NetErr ''unreachable'')) False]"]
  note d = scheme_selected_once [of "exCache accept" exWorld exFormat 0
      "exEnv (Inl (NetErr ''unreachable'')) False" "etagScheme ''a''"
      "[exEnv (Inl (NetErr ''unreachable'')) False,
         exEnv (Inr (exResponse 200 [(''ETag'', ''a'')] ''new'')) False,
         exEnv (Inl (NetErr ''unreachable'')) False]"]
  have c1_5: "fst (checkUpdates exFormat (exCache accept) 0 None (exEnv (Inl (NetErr ''unreachable'')) False) exWorld) = None
   \<and> EvHead ''http://host/data'' \<in> fst ` set (newEvents exWorld (snd (checkUpdates exFormat (exCache accept) 0 None
        (exEnv (Inl (NetErr ''unreachable'')) False) exWorld)))
   \<and> map_option kindOf (fst (keepCurrent_loop exFormat (exCache accept) 0 (Some (etagScheme ''a''))
        [exEnv (Inl (NetErr ''unreachable'')) False] exWorld)) = Some KEtag
   \<and> quiet (newEvents exWorld (snd (keepCurrent_loop exFormat (exCache accept) 0 (Some (etagScheme ''a''))
        [exEnv (Inl (NetErr ''unreachable'')) False] exWorld)))
   \<and> selections (newEvents exWorld (snd (keepCurrent exFormat (exCache accept) 0
        [exEnv (Inl (NetErr ''unreachable'')) False,
         exEnv (Inr (exResponse 200 [(''ETag'', ''a'')] ''new'')) False,
         exEnv (Inl (NetErr ''unreachable'')) False] exWorld))) \<le> 1"
    using a [THEN conjunct1] a [THEN conjunct2, THEN conjunct1] a [THEN conjunct2, THEN conjunct2, THEN conjunct1] a [THEN conjunct2, THEN conjunct2, THEN conjunct2, THEN conjunct1] d [THEN conjunct2, THEN conjunct2, THEN conjunct2, THEN conjunct2, THEN conjunct1]
    by (simp add: exEnv_def exCache_def)
  have c6: "probes (newEvents exWorld (snd (keepCurrent_loop exFormat (exCache accept) 0 (Some (etagScheme ''a''))
        [exEnv (Inl (NetErr ''unreachable'')) False] exWorld))) = 0"
    by (rule a [THEN conjunct2, THEN conjunct2, THEN conjunct2, THEN conjunct2, THEN conjunct2, THEN conjunct1])
  have c7: "fetches (newEvents exWorld (snd (keepCurrent_loop exFormat (exCache accept) 0 (Some (etagScheme ''a''))
        [exEnv (Inl (NetErr ''unreachable'')) False] exWorld))) = 1"
    using a [THEN conjunct2, THEN conjunct2, THEN conjunct2, THEN conjunct2, THEN conjunct2, THEN conjunct2, THEN conjunct1] by simp
  have c8: "probes (newEvents exWorld (snd (keepCurrent exFormat (exCache accept) 0
        [exEnv (Inl (NetErr ''unreachable'')) False, exEnv (Inl (NetErr ''unreachable'')) False] exWorld))) = 2"
    using b [THEN conjunct2, THEN conjunct2, THEN conjunct2, THEN conjunct2, THEN conjunct2, THEN conjunct2, THEN conjunct2, THEN conjunct2, THEN conjunct1] pf by simp
  have c9: "fst (keepCurrent exFormat (exCache accept) 0
        [exEnv (Inl (NetErr ''unreachable'')) False, exEnv (Inl (NetErr ''unreachable'')) False] exWorld) = None"
    using b [THEN conjunct2, THEN conjunct2, THEN conjunct2, THEN conjunct2, THEN conjunct2, THEN conjunct2, THEN conjunct2, THEN conjunct2, THEN conjunct2, THEN conjunct2, THEN conjunct2] pf by simp
  have c10: "probes (newEvents exWorld (snd (keepCurrent exFormat (exCache accept) 0
        [exEnv (Inl (NetErr ''unreachable'')) False,
         exEnv (Inr (exResponse 200 [(''ETag'', ''a'')] ''new'')) False,
         exEnv (Inl (NetErr ''unreachable'')) False] exWorld))) = 2"
    using d [THEN conjunct2, THEN conjunct2, THEN conjunct2, THEN conjunct2, THEN conjunct2, THEN conjunct2, THEN conjunct2, THEN conjunct2, THEN conjunct1] pf po by simp
  have c11: "selections (newEvents exWorld (snd (keepCurrent exFormat (exCache accept) 0
        [exEnv (Inl (NetErr ''unreachable'')) False,
         exEnv (Inr (exResponse 200 [(''ETag'', ''a'')] ''new'')) False,
         exEnv (Inl (NetErr ''unreachable'')) False] exWorld))) = 1"
    using d [THEN conjunct2, THEN conjunct2, THEN conjunct2, THEN conjunct2, THEN conjunct2, THEN conjunct2, THEN conjunct2, THEN conjunct2, THEN conjunct2, THEN conjunct1] pf po by simp
  have c12: "fetches (newEvents exWorld (snd (keepCurrent exFormat (exCache accept) 0
        [exEnv (Inl (NetErr ''unreachable'')) False,
         exEnv (Inr (exResponse 200 [(''ETag'', ''a'')] ''new'')) False,
         exEnv (Inl (NetErr ''unreachable'')) False] exWorld))) = 2"
    using d [THEN conjunct2, THEN conjunct2, THEN conjunct2, THEN conjunct2, THEN conjunct2, THEN conjunct2, THEN conjunct2, THEN conjunct2, THEN conjunct2, THEN conjunct2, THEN conjunct1] pf po by simp
  have c13: "fst (keepCurrent exFormat (exCache accept) 0
        [exEnv (Inl (NetErr ''unreachable'')) False,
         exEnv (Inr (exResponse 200 [(''ETag'', ''a'')] ''new'')) False,
         exEnv (Inl (NetErr ''unreachable'')) False] exWorld) \<noteq> None"
    using d [THEN conjunct2, THEN conjunct2, THEN conjunct2, THEN conjunct2, THEN conjunct2, THEN conjunct2, THEN conjunct2, THEN conjunct2, THEN conjunct2, THEN conjunct2, THEN conjunct2] pf po by simp
  note c1 = c1_5 [THEN conjunct1]
  note c2 = c1_5 [THEN conjunct2, THEN conjunct1]
  note c3 = c1_5 [THEN conjunct2, THEN conjunct2, THEN conjunct1]
  note c4 = c1_5 [THEN conjunct2, THEN conjunct2, THEN conjunct2, THEN conjunct1]
  note c5 = c1_5 [THEN conjunct2, THEN conjunct2, THEN conjunct2, THEN conjunct2]
  show ?thesis
    by (intro conjI c1 c2 c3 c4 c5 c6 c7 c8 c9 c10 c11 c12 c13)
qed

subsection \<open>C6: the cache file that is there at the start\<close>

text \<open>
  C6. The code does not do what the statement asks of it. With a readable cache file
  whose modification time is 42 and a callback that accepts, \<open>readInitial\<close> opens the
  file and hands its bytes to the callback once, before anything else happens; but it
  returns the zero time, not 42, because \<open>file.Stat()\<close> is called after
  \<open>file.Close()\<close> and fails on the closed file.
\<close>

theorem readInitial_baseline_lost:
  "readInitial (exCache accept) False exWorld =
     (zeroTime,
      exWorld\<lparr>trace := [(EvOpen ''dir/cachefile'', fs exWorld), (EvOnUpdate ''old'', fs exWorld)]\<rparr>)
   \<and> map_option mtime (fs exWorld (cacheFile (exCache accept))) = Some 42
   \<and> zeroTime \<noteq> 42"
  by (simp add: readInitial_def os_Open_def File_Close_def File_Stat_def File_contents_def
        zeroTime_def Let_def emit_def ex_defs)

subsection \<open>C8: what Open returns\<close>

text \<open>
  C8. \<open>Open\<close> returns an error exactly when the cache file has a directory part and
  \<open>os.MkdirAll\<close> fails with an error that is not \<open>IsExist\<close>. What the caller gets is
  decided by \<open>Open\<close> alone, whatever happens in the cycles that follow; when the
  directory is created, the caller gets no error, also with a server that is never
  reachable. The failures of a cycle end in the log: a failed probe is logged, and an
  error of \<open>updateFromWeb\<close> (request, body, callback or file error) is logged,
  in a cycle of a loop that has its scheme and in the cycle that selects the scheme
  alike; there \<open>updateFromWeb\<close> runs on the scheme just constructed, after the
  probe and the two log messages. Over a run: when every probe fails, or when the loop
  has its scheme and every request fails, each cycle logs one error, the callback is
  never invoked, the file system stays as it was (no cache file is created), and the loop
  goes on with the scheme it had.
\<close>

theorem Open_error_only_for_mkdir:
  "((\<exists>er. fst (Open u path interval cb su w) = Inl er) =
      (fst (filepath_Split path) \<noteq> [] \<and>
       (\<exists>oe. mkdirErr su = Some oe \<and> \<not> os_IsExist (OsErr oe))))
   \<and> fst (program Format u path interval cb su es w) =
       (case fst (Open u path interval cb su w) of Inl er \<Rightarrow> Some er | Inr g \<Rightarrow> None)
   \<and> (mkdirErr su = None \<longrightarrow> fst (program Format u path interval cb su es w) = None)
   \<and> (http_Head e (url c) = Inl er \<longrightarrow>
        EvError ''Unable to request modified of %v: %v'' er \<in>
          fst ` set (newEvents w (snd (checkUpdates Format c initialDate None e w))))
   \<and> (fst (updateFromWeb c s e w) = Some er \<longrightarrow>
        EvError ''Unable to update from web: %v'' er \<in>
          fst ` set (newEvents w (snd (checkUpdates Format c initialDate (Some s) e w))))
   \<and> (http_Head e (url c) = Inr hr \<and>
        fst (updateFromWeb c
              (if Header_Get (Header hr) lastModifiedHeader \<noteq> [] then lastModifiedScheme (Format initialDate)
               else if Header_Get (Header hr) etagHeader \<noteq> [] then etagScheme []
               else noopScheme) e
              (emit (EvInfo (if Header_Get (Header hr) lastModifiedHeader \<noteq> []
                             then ''Will use %v to determine when file changes''
                             else if Header_Get (Header hr) etagHeader \<noteq> []
                             then ''Will use %v to determine when file changes''
                             else ''Will always assume file changed''))
                 (emit (EvHead (url c))
                    (emit (EvInfo ''Cache scheme unknown, issue HEAD request to determine scheme'') w)))) = Some er \<longrightarrow>
        EvError ''Unable to update from web: %v'' er \<in>
          fst ` set (newEvents w (snd (checkUpdates Format c initialDate None e w))))
   \<and> (list_all (probeFails c) es \<longrightarrow>
        errorLogs (newEvents w (snd (keepCurrent Format c initialDate es w))) = length es \<and>
        callbacks (newEvents w (snd (keepCurrent Format c initialDate es w))) = 0 \<and>
        fs (snd (keepCurrent Format c initialDate es w)) = fs w \<and>
        fst (keepCurrent Format c initialDate es w) = None)
   \<and> (list_all (fetchFails c s) es \<longrightarrow>
        errorLogs (newEvents w (snd (keepCurrent_loop Format c initialDate (Some s) es w))) = length es \<and>
        callbacks (newEvents w (snd (keepCurrent_loop Format c initialDate (Some s) es w))) = 0 \<and>
        fs (snd (keepCurrent_loop Format c initialDate (Some s) es w)) = fs w \<and>
        fst (keepCurrent_loop Format c initialDate (Some s) es w) = Some s)"
proof -
  have ok: "mkdirErr su = None \<longrightarrow> fst (program Format u path interval cb su es w) = None"
  proof
    assume n: "mkdirErr su = None"
    with Open_error_iff [of u path interval cb su w]
    have "\<not> (\<exists>er. fst (Open u path interval cb su w) = Inl er)" by simp
    then show "fst (program Format u path interval cb su es w) = None"
      unfolding program_result by (cases "fst (Open u path interval cb su w)") auto
  qed
  have probe: "http_Head e (url c) = Inl er \<longrightarrow>
        EvError ''Unable to request modified of %v: %v'' er \<in>
          fst ` set (newEvents w (snd (checkUpdates Format c initialDate None e w)))"
  proof
    assume "http_Head e (url c) = Inl er"
    from checkUpdates_None_fail [OF this, of Format initialDate w]
    show "EvError ''Unable to request modified of %v: %v'' er \<in>
            fst ` set (newEvents w (snd (checkUpdates Format c initialDate None e w)))"
      by (simp add: newEvents_def)
  qed
  have established: "fst (updateFromWeb c s e w) = Some er \<longrightarrow>
        EvError ''Unable to update from web: %v'' er \<in>
          fst ` set (newEvents w (snd (checkUpdates Format c initialDate (Some s) e w)))"
    using checkUpdates_logs_update_error [of c s e w er Format initialDate] by (rule impI)
  have selecting: "http_Head e (url c) = Inr hr \<and>
        fst (updateFromWeb c
              (if Header_Get (Header hr) lastModifiedHeader \<noteq> [] then lastModifiedScheme (Format initialDate)
               else if Header_Get (Header hr) etagHeader \<noteq> [] then etagScheme []
               else noopScheme) e
              (emit (EvInfo (if Header_Get (Header hr) lastModifiedHeader \<noteq> []
                             then ''Will use %v to determine when file changes''
                             else if Header_Get (Header hr) etagHeader \<noteq> []
                             then ''Will use %v to determine when file changes''
                             else ''Will always assume file changed''))
                 (emit (EvHead (url c))
                    (emit (EvInfo ''Cache scheme unknown, issue HEAD request to determine scheme'') w)))) = Some er \<longrightarrow>
        EvError ''Unable to update from web: %v'' er \<in>
          fst ` set (newEvents w (snd (checkUpdates Format c initialDate None e w)))"
  proof
    assume a: "http_Head e (url c) = Inr hr \<and>
        fst (updateFromWeb c
              (if Header_Get (Header hr) lastModifiedHeader \<noteq> [] then lastModifiedScheme (Format initialDate)
               else if Header_Get (Header hr) etagHeader \<noteq> [] then etagScheme []
               else noopScheme) e
              (emit (EvInfo (if Header_Get (Header hr) lastModifiedHeader \<noteq> []
                             then ''Will use %v to determine when file changes''
                             else if Header_Get (Header hr) etagHeader \<noteq> []
                             then ''Will use %v to determine when file changes''
                             else ''Will always assume file changed''))
                 (emit (EvHead (url c))
                    (emit (EvInfo ''Cache scheme unknown, issue HEAD request to determine scheme'') w)))) = Some er"
    from checkUpdates_logs_selecting
      [where F = Format and d = initialDate, OF a [THEN conjunct1] a [THEN conjunct2]]
    show "EvError ''Unable to update from web: %v'' er \<in>
          fst ` set (newEvents w (snd (checkUpdates Format c initialDate None e w)))" .
  qed
  have unreachable: "list_all (probeFails c) es \<longrightarrow>
        errorLogs (newEvents w (snd (keepCurrent Format c initialDate es w))) = length es \<and>
        callbacks (newEvents w (snd (keepCurrent Format c initialDate es w))) = 0 \<and>
        fs (snd (keepCurrent Format c initialDate es w)) = fs w \<and>
        fst (keepCurrent Format c initialDate es w) = None"
  proof
    assume a: "list_all (probeFails c) es"
    from loop_unreachable [OF a, of Format initialDate w] obtain evs where
      u: "trace (snd (keepCurrent_loop Format c initialDate None es w)) = trace w @ evs \<and>
          errorLogs evs = length es \<and> callbacks evs = 0 \<and>
          fs (snd (keepCurrent_loop Format c initialDate None es w)) = fs w"
      by (rule exE)
    have ne: "newEvents w (snd (keepCurrent Format c initialDate es w)) = evs"
      unfolding keepCurrent_def by (rule newEvents_append [OF u [THEN conjunct1]])
    from loop_None_exact [of Format c initialDate es w] a
    have n: "fst (keepCurrent Format c initialDate es w) = None"
      unfolding keepCurrent_def by auto
    show "errorLogs (newEvents w (snd (keepCurrent Format c initialDate es w))) = length es \<and>
        callbacks (newEvents w (snd (keepCurrent Format c initialDate es w))) = 0 \<and>
        fs (snd (keepCurrent Format c initialDate es w)) = fs w \<and>
        fst (keepCurrent Format c initialDate es w) = None"
      unfolding ne using u n by (simp add: keepCurrent_def)
  qed
  have failing: "list_all (fetchFails c s) es \<longrightarrow>
        errorLogs (newEvents w (snd (keepCurrent_loop Format c initialDate (Some s) es w))) = length es \<and>
        callbacks (newEvents w (snd (keepCurrent_loop Format c initialDate (Some s) es w))) = 0 \<and>
        fs (snd (keepCurrent_loop Format c initialDate (Some s) es w)) = fs w \<and>
        fst (keepCurrent_loop Format c initialDate (Some s) es w) = Some s"
  proof
    assume a: "list_all (fetchFails c s) es"
    from loop_fetch_fails [OF a, of Format initialDate w] obtain evs where
      u: "trace (snd (keepCurrent_loop Format c initialDate (Some s) es w)) = trace w @ evs \<and>
          errorLogs evs = length es \<and> callbacks evs = 0 \<and>
          fs (snd (keepCurrent_loop Format c initialDate (Some s) es w)) = fs w \<and>
          fst (keepCurrent_loop Format c initialDate (Some s) es w) = Some s"
      by (rule exE)
    have ne: "newEvents w (snd (keepCurrent_loop Format c initialDate (Some s) es w)) = evs"
      by (rule newEvents_append [OF u [THEN conjunct1]])
    show "errorLogs (newEvents w (snd (keepCurrent_loop Format c initialDate (Some s) es w))) = length es \<and>
        callbacks (newEvents w (snd (keepCurrent_loop Format c initialDate (Some s) es w))) = 0 \<and>
        fs (snd (keepCurrent_loop Format c initialDate (Some s) es w)) = fs w \<and>
        fst (keepCurrent_loop Format c initialDate (Some s) es w) = Some s"
      unfolding ne using u by simp
  qed
  show ?thesis
    by (intro conjI Open_error_iff program_result ok probe established selecting unreachable failing)
qed

text \<open>
  An instance: a directory that cannot be created gives the error; with the directory
  created and a server that cannot be reached, the caller gets no error and the failed
  probe is in the log; a callback that rejects is in the log.
\<close>

theorem Open_error_only_for_mkdir_witness:
  "fst (Open ''http://not-exist'' ''dir/cachefile'' 50 accept \<lparr>mkdirErr = Some ErrOther, openFault = False\<rparr> exWorld) =
     Inl (Wrapped ''Unable to create cache dir %v: %v'' (OsErr ErrOther))
   \<and> mkdirErr \<lparr>mkdirErr = None, openFault = False\<rparr> = None
   \<and> fst (program exFormat ''http://not-exist'' ''dir/cachefile'' 50 accept \<lparr>mkdirErr = None, openFault = False\<rparr>
        [exEnv (Inl (NetErr ''unreachable'')) False, exEnv (Inl (NetErr ''unreachable'')) False] exWorld) = None
   \<and> http_Head (exEnv (Inl (NetErr ''unreachable'')) False) (url (exCache accept)) = Inl (NetErr ''unreachable'')
   \<and> EvError ''Unable to request modified of %v: %v'' (NetErr ''unreachable'') \<in>
       fst ` set (newEvents exWorld (snd (checkUpdates exFormat (exCache accept) 0 None
                    (exEnv (Inl (NetErr ''unreachable'')) False) exWorld)))
   \<and> fst (updateFromWeb (exCache reject) noopScheme (exEnv (Inr (exResponse 200 [] ''new'')) False) exWorld) =
       Some (CbErr ''rejected'')
   \<and> EvError ''Unable to update from web: %v'' (CbErr ''rejected'') \<in>
       fst ` set (newEvents exWorld (snd (checkUpdates exFormat (exCache reject) 0 (Some noopScheme)
                    (exEnv (Inr (exResponse 200 [] ''new'')) False) exWorld)))
   \<and> http_Head (exEnv (Inr (exResponse 200 [] ''new'')) False) (url (exCache reject)) =
       Inr (exResponse 200 [] ''new'')
   \<and> EvError ''Unable to update from web: %v'' (CbErr ''rejected'') \<in>
       fst ` set (newEvents exWorld (snd (checkUpdates exFormat (exCache reject) 0 None
                    (exEnv (Inr (exResponse 200 [] ''new'')) False) exWorld)))
   \<and> list_all (probeFails (exCache accept)) [exEnv (Inl (NetErr ''unreachable'')) False, exEnv (Inl (NetErr ''unreachable'')) False]
   \<and> errorLogs (newEvents exWorld (snd (keepCurrent exFormat (exCache accept) 0
         [exEnv (Inl (NetErr ''unreachable'')) False, exEnv (Inl (NetErr ''unreachable'')) False] exWorld))) = 2
   \<and> callbacks (newEvents exWorld (snd (keepCurrent exFormat (exCache accept) 0
         [exEnv (Inl (NetErr ''unreachable'')) False, exEnv (Inl (NetErr ''unreachable'')) False] exWorld))) = 0
   \<and> fs (snd (keepCurrent exFormat (exCache accept) 0
         [exEnv (Inl (NetErr ''unreachable'')) False, exEnv (Inl (NetErr ''unreachable'')) False] exWorld)) = fs exWorld
   \<and> list_all (fetchFails (exCache accept) noopScheme) [exEnv (Inl (NetErr ''unreachable'')) False, exEnv (Inl (NetErr ''unreachable'')) False]
   \<and> errorLogs (newEvents exWorld (snd (keepCurrent_loop exFormat (exCache accept) 0 (Some noopScheme)
         [exEnv (Inl (NetErr ''unreachable'')) False, exEnv (Inl (NetErr ''unreachable'')) False] exWorld))) = 2
   \<and> fst (keepCurrent_loop exFormat (exCache accept) 0 (Some noopScheme)
         [exEnv (Inl (NetErr ''unreachable'')) False, exEnv (Inl (NetErr ''unreachable'')) False] exWorld) = Some noopScheme"
proof -
  have h0: "fst (Open ''http://not-exist'' ''dir/cachefile'' 50 accept
                  \<lparr>mkdirErr = Some ErrOther, openFault = False\<rparr> exWorld) =
              Inl (Wrapped ''Unable to create cache dir %v: %v'' (OsErr ErrOther))"
    by (simp add: Open_def filepath_Split_def Let_def)
  have h1: "mkdirErr \<lparr>mkdirErr = None, openFault = False\<rparr> = None" by simp
  have h2: "http_Head (exEnv (Inl (NetErr ''unreachable'')) False) (url (exCache accept)) =
              Inl (NetErr ''unreachable'')"
    by (simp add: exEnv_def)
  have h3: "fst (updateFromWeb (exCache reject) noopScheme
                  (exEnv (Inr (exResponse 200 [] ''new'')) False) exWorld) = Some (CbErr ''rejected'')"
    by (simp add: updateFromWeb_def Let_def ex_defs)
  have h4: "http_Head (exEnv (Inr (exResponse 200 [] ''new'')) False) (url (exCache reject)) =
              Inr (exResponse 200 [] ''new'')"
    by (simp add: exEnv_def)
  have h5: "fst (updateFromWeb (exCache reject)
              (if Header_Get (Header (exResponse 200 [] ''new'')) lastModifiedHeader \<noteq> []
               then lastModifiedScheme (exFormat 0)
               else if Header_Get (Header (exResponse 200 [] ''new'')) etagHeader \<noteq> [] then etagScheme []
               else noopScheme)
              (exEnv (Inr (exResponse 200 [] ''new'')) False)
              (emit (EvInfo (if Header_Get (Header (exResponse 200 [] ''new'')) lastModifiedHeader \<noteq> []
                             then ''Will use %v to determine when file changes''
                             else if Header_Get (Header (exResponse 200 [] ''new'')) etagHeader \<noteq> []
                             then ''Will use %v to determine when file changes''
                             else ''Will always assume file changed''))
                 (emit (EvHead (url (exCache reject)))
                    (emit (EvInfo ''Cache scheme unknown, issue HEAD request to determine scheme'')
                       exWorld)))) = Some (CbErr ''rejected'')"
    by (simp add: updateFromWeb_def Let_def ex_defs)
  note a = Open_error_only_for_mkdir
    [of "''http://not-exist''" "''dir/cachefile''" 50 accept "\<lparr>mkdirErr = None, openFault = False\<rparr>"
      exWorld exFormat
      "[exEnv (Inl (NetErr ''unreachable'')) False, exEnv (Inl (NetErr ''unreachable'')) False]"
      "exEnv (Inl (NetErr ''unreachable'')) False" "exCache accept" "NetErr ''unreachable''" 0 noopScheme
      "exResponse 200 [] ''new''"]
  note b = Open_error_only_for_mkdir
    [of "''http://not-exist''" "''dir/cachefile''" 50 accept "\<lparr>mkdirErr = None, openFault = False\<rparr>"
      exWorld exFormat "[]"
      "exEnv (Inr (exResponse 200 [] ''new'')) False" "exCache reject" "CbErr ''rejected''" 0 noopScheme
      "exResponse 200 [] ''new''"]
  from a h1 have c3: "fst (program exFormat ''http://not-exist'' ''dir/cachefile'' 50 accept
        \<lparr>mkdirErr = None, openFault = False\<rparr>
        [exEnv (Inl (NetErr ''unreachable'')) False, exEnv (Inl (NetErr ''unreachable'')) False] exWorld) = None"
    by blast
  from a h2 have c5: "EvError ''Unable to request modified of %v: %v'' (NetErr ''unreachable'') \<in>
       fst ` set (newEvents exWorld (snd (checkUpdates exFormat (exCache accept) 0 None
                    (exEnv (Inl (NetErr ''unreachable'')) False) exWorld)))"
    by blast
  from b h3 have c7: "EvError ''Unable to update from web: %v'' (CbErr ''rejected'') \<in>
       fst ` set (newEvents exWorld (snd (checkUpdates exFormat (exCache reject) 0 (Some noopScheme)
                    (exEnv (Inr (exResponse 200 [] ''new'')) False) exWorld)))"
    by blast
  from b [THEN conjunct2, THEN conjunct2, THEN conjunct2, THEN conjunct2, THEN conjunct2,
      THEN conjunct1] h4 h5
  have c9: "EvError ''Unable to update from web: %v'' (CbErr ''rejected'') \<in>
       fst ` set (newEvents exWorld (snd (checkUpdates exFormat (exCache reject) 0 None
                    (exEnv (Inr (exResponse 200 [] ''new'')) False) exWorld)))"
    by (rule mp [OF _ conjI])
  have h6: "list_all (probeFails (exCache accept)) [exEnv (Inl (NetErr ''unreachable'')) False, exEnv (Inl (NetErr ''unreachable'')) False]"
    by (simp add: probeFails_def exEnv_def)
  have h7: "list_all (fetchFails (exCache accept) noopScheme) [exEnv (Inl (NetErr ''unreachable'')) False, exEnv (Inl (NetErr ''unreachable'')) False]"
    by (simp add: fetchFails_def exEnv_def)
  note u = a [THEN conjunct2, THEN conjunct2, THEN conjunct2, THEN conjunct2, THEN conjunct2,
      THEN conjunct2, THEN conjunct1, THEN mp, OF h6]
  note v = a [THEN conjunct2, THEN conjunct2, THEN conjunct2, THEN conjunct2, THEN conjunct2,
      THEN conjunct2, THEN conjunct2, THEN mp, OF h7]
  have c11: "errorLogs (newEvents exWorld (snd (keepCurrent exFormat (exCache accept) 0
         [exEnv (Inl (NetErr ''unreachable'')) False, exEnv (Inl (NetErr ''unreachable'')) False] exWorld))) = 2"
    using u [THEN conjunct1] by simp
  note c12 = u [THEN conjunct2, THEN conjunct1]
  note c13 = u [THEN conjunct2, THEN conjunct2, THEN conjunct1]
  have c15: "errorLogs (newEvents exWorld (snd (keepCurrent_loop exFormat (exCache accept) 0 (Some noopScheme)
         [exEnv (Inl (NetErr ''unreachable'')) False, exEnv (Inl (NetErr ''unreachable'')) False] exWorld))) = 2"
    using v [THEN conjunct1] by simp
  note c16 = v [THEN conjunct2, THEN conjunct2, THEN conjunct2]
  show ?thesis
    by (intro conjI h0 h1 c3 h2 c5 h3 c7 h4 c9 h6 c11 c12 c13 h7 c15 c16)
qed

subsection \<open>C9: the request is always sent\<close>

text \<open>
  C9. Whatever the scheme and its token, \<open>updateFromWeb\<close> starts by sending the
  request that \<open>prepareRequest\<close> has prepared: with \<open>If-Modified-Since\<close> set to the
  token of the modification-time scheme, with \<open>If-None-Match\<close> set to the token of the
  entity-tag scheme, unchanged for the no-op scheme. A loop with a scheme sends one
  request in each cycle, so a token that has not changed is sent again. When the response
  arrives with a status other than 304 and a readable body, the callback gets the body: the
  fetch is skipped only on the server's word.
\<close>

theorem request_always_sent:
  "take 1 (newEvents w (snd (snd (updateFromWeb c s e w)))) =
     [(EvDo (prepareRequest s (http_NewRequest ''GET'' (url c))), fs w)]
   \<and> ReqHeader (prepareRequest (lastModifiedScheme t) (http_NewRequest ''GET'' u)) =
       [ifModifiedSinceHeader \<mapsto> [t]]
   \<and> ReqHeader (prepareRequest (etagScheme t) (http_NewRequest ''GET'' u)) =
       [ifNoneMatchHeader \<mapsto> [t]]
   \<and> prepareRequest noopScheme (http_NewRequest ''GET'' u) = http_NewRequest ''GET'' u
   \<and> fetches (newEvents w (snd (keepCurrent_loop Format c initialDate (Some s) es w))) = length es
   \<and> (client_Do e (prepareRequest s (http_NewRequest ''GET'' (url c))) = Inr resp \<and>
        StatusCode resp \<noteq> StatusNotModified \<and> Body resp = Inr data \<longrightarrow>
      EvOnUpdate data \<in> fst ` set (newEvents w (snd (snd (updateFromWeb c s e w)))))"
proof -
  from updateFromWeb_trace [of c s e w] obtain evs where
    "trace (snd (snd (updateFromWeb c s e w))) =
       trace w @ (EvDo (prepareRequest s (http_NewRequest ''GET'' (url c))), fs w) # evs"
    by blast
  from newEvents_append [OF this]
  have first: "take 1 (newEvents w (snd (snd (updateFromWeb c s e w)))) =
     [(EvDo (prepareRequest s (http_NewRequest ''GET'' (url c))), fs w)]"
    by simp
  define w' where "w' = snd (keepCurrent_loop Format c initialDate (Some s) es w)"
  from loop_Some [OF w'_def [symmetric]] obtain evs' where
    t: "trace w' = trace w @ evs'" and f: "fetches evs' = length es"
    by blast
  from newEvents_append [OF t] f
  have every: "fetches (newEvents w (snd (keepCurrent_loop Format c initialDate (Some s) es w))) = length es"
    by (simp add: w'_def)
  have delivered: "client_Do e (prepareRequest s (http_NewRequest ''GET'' (url c))) = Inr resp \<and>
        StatusCode resp \<noteq> StatusNotModified \<and> Body resp = Inr data \<longrightarrow>
      EvOnUpdate data \<in> fst ` set (newEvents w (snd (snd (updateFromWeb c s e w))))"
  proof
    assume a: "client_Do e (prepareRequest s (http_NewRequest ''GET'' (url c))) = Inr resp \<and>
        StatusCode resp \<noteq> StatusNotModified \<and> Body resp = Inr data"
    then obtain evs2 where "trace (snd (snd (updateFromWeb c s e w))) =
           trace w @ (EvDo (prepareRequest s (http_NewRequest ''GET'' (url c))), fs w) #
                     (EvOnUpdate data, fs w) # evs2"
      using updateFromWeb_delivers [of e s c resp data w] by blast
    from newEvents_append [OF this]
    show "EvOnUpdate data \<in> fst ` set (newEvents w (snd (snd (updateFromWeb c s e w))))"
      by (simp add: image_iff)
  qed
  from first every delivered show ?thesis
    by (simp add: Header_Set_def http_NewRequest_def)
qed

text \<open>
  An instance: the server keeps answering 200 with the entity tag \<open>a\<close>, the scheme
  holds \<open>a\<close>, and both cycles send the request and hand the body to the callback.
\<close>

theorem request_always_sent_witness:
  "client_Do (exEnv (Inr (exResponse 200 [(''ETag'', ''a'')] ''new'')) False)
      (prepareRequest (etagScheme ''a'') (http_NewRequest ''GET'' (url (exCache accept)))) =
     Inr (exResponse 200 [(''ETag'', ''a'')] ''new'')
   \<and> StatusCode (exResponse 200 [(''ETag'', ''a'')] ''new'') \<noteq> StatusNotModified
   \<and> Body (exResponse 200 [(''ETag'', ''a'')] ''new'') = Inr ''new''
   \<and> EvOnUpdate ''new'' \<in> fst ` set (newEvents exWorld (snd (snd (updateFromWeb (exCache accept)
         (etagScheme ''a'') (exEnv (Inr (exResponse 200 [(''ETag'', ''a'')] ''new'')) False) exWorld))))
   \<and> fetches (newEvents exWorld (snd (keepCurrent_loop exFormat (exCache accept) 0 (Some (etagScheme ''a''))
         [exEnv (Inr (exResponse 200 [(''ETag'', ''a'')] ''new'')) False,
          exEnv (Inr (exResponse 200 [(''ETag'', ''a'')] ''new'')) False] exWorld))) = 2"
proof -
  have h1: "client_Do (exEnv (Inr (exResponse 200 [(''ETag'', ''a'')] ''new'')) False)
      (prepareRequest (etagScheme ''a'') (http_NewRequest ''GET'' (url (exCache accept)))) =
     Inr (exResponse 200 [(''ETag'', ''a'')] ''new'')"
    by (simp add: exEnv_def)
  have h2: "StatusCode (exResponse 200 [(''ETag'', ''a'')] ''new'') \<noteq> StatusNotModified"
    by (simp add: exResponse_def StatusNotModified_def)
  have h3: "Body (exResponse 200 [(''ETag'', ''a'')] ''new'') = Inr ''new''"
    by (simp add: exResponse_def)
  note a = request_always_sent [of exWorld "exCache accept" "etagScheme ''a''"
      "exEnv (Inr (exResponse 200 [(''ETag'', ''a'')] ''new'')) False" "''a''" "''u''" exFormat 0
      "[exEnv (Inr (exResponse 200 [(''ETag'', ''a'')] ''new'')) False,
          exEnv (Inr (exResponse 200 [(''ETag'', ''a'')] ''new'')) False]"
      "exResponse 200 [(''ETag'', ''a'')] ''new''" "''new''"]
  from a h1 h2 h3 have c4: "EvOnUpdate ''new'' \<in> fst ` set (newEvents exWorld (snd (snd (updateFromWeb (exCache accept)
         (etagScheme ''a'') (exEnv (Inr (exResponse 200 [(''ETag'', ''a'')] ''new'')) False) exWorld))))"
    by blast
  from a have c5: "fetches (newEvents exWorld (snd (keepCurrent_loop exFormat (exCache accept) 0 (Some (etagScheme ''a''))
         [exEnv (Inr (exResponse 200 [(''ETag'', ''a'')] ''new'')) False,
          exEnv (Inr (exResponse 200 [(''ETag'', ''a'')] ''new'')) False] exWorld))) = 2"
    by simp
  show ?thesis
    by (intro conjI h1 h2 h3 c4 c5)
qed

subsection \<open>C10: every response overwrites the token\<close>

text \<open>
  C10. Whenever the request gets a response, whatever its status and whatever the
  callback says later, the scheme that \<open>updateFromWeb\<close> leaves holds the value of its
  header in that response (\<open>Last-Modified\<close> for the modification-time scheme,
  \<open>ETag\<close> for the entity-tag scheme); a response without the header leaves the empty
  string.
\<close>

theorem response_overwrites_token:
  assumes "client_Do e (prepareRequest s (http_NewRequest ''GET'' (url c))) = Inr resp"
  shows "fst (snd (updateFromWeb c s e w)) =
           (case s of
              lastModifiedScheme t \<Rightarrow> lastModifiedScheme (Header_Get (Header resp) lastModifiedHeader)
            | etagScheme t \<Rightarrow> etagScheme (Header_Get (Header resp) etagHeader)
            | noopScheme \<Rightarrow> noopScheme)
         \<and> (Header resp lastModifiedHeader = None \<longrightarrow> Header_Get (Header resp) lastModifiedHeader = [])
         \<and> (Header resp etagHeader = None \<longrightarrow> Header_Get (Header resp) etagHeader = [])"
  using updateFromWeb_onResponse [OF assms, of w]
  by (cases s) (simp_all add: Header_Get_def)

text \<open>
  An instance: a 304 response without an \<open>ETag\<close> header resets the token \<open>a\<close> to
  the empty string.
\<close>

theorem response_overwrites_token_witness:
  "client_Do (exEnv (Inr (exResponse 304 [] [])) False)
      (prepareRequest (etagScheme ''a'') (http_NewRequest ''GET'' (url (exCache reject)))) =
     Inr (exResponse 304 [] [])
   \<and> Header (exResponse 304 [] []) etagHeader = None
   \<and> fst (snd (updateFromWeb (exCache reject) (etagScheme ''a'')
                 (exEnv (Inr (exResponse 304 [] [])) False) exWorld)) = etagScheme []"
proof -
  have h1: "client_Do (exEnv (Inr (exResponse 304 [] [])) False)
      (prepareRequest (etagScheme ''a'') (http_NewRequest ''GET'' (url (exCache reject)))) =
     Inr (exResponse 304 [] [])"
    by (simp add: exEnv_def)
  have h2: "Header (exResponse 304 [] []) etagHeader = None"
    by (simp add: exResponse_def)
  from response_overwrites_token [OF h1, of exWorld] h2
  have c3: "fst (snd (updateFromWeb (exCache reject) (etagScheme ''a'')
                 (exEnv (Inr (exResponse 304 [] [])) False) exWorld)) = etagScheme []"
    by simp
  show ?thesis
    by (intro conjI h1 h2 c3)
qed

end
